theory Spec2Isabelle
  imports Complex_Main "HOL-Library.Multiset"
begin

section \<open>Numbers of the host language\<close>

text \<open>
  Scores, weights and timings are JavaScript numbers. They are modelled as exact
  rationals (rounding of binary floating point is outside the model); a score may
  also be \<open>null\<close>, which arithmetic reads as 0. The one
  place where the source divides by a value that may be zero keeps JavaScript's
  answer: a positive number divided by zero is \<open>Infinity\<close>, a negative one
  \<open>-Infinity\<close>, and zero divided by zero is \<open>NaN\<close>, which compares false with
  everything.
\<close>

datatype jsnum = Fin rat | PosInf | NegInf | NaN

definition js_div :: "rat \<Rightarrow> rat \<Rightarrow> jsnum" where
  "js_div a b =
     (if b \<noteq> 0 then Fin (a / b)
      else if 0 < a then PosInf
      else if a < 0 then NegInf
      else NaN)"

fun js_gt :: "jsnum \<Rightarrow> rat \<Rightarrow> bool" where
  "js_gt (Fin x) c = (c < x)"
| "js_gt PosInf c = True"
| "js_gt NegInf c = False"
| "js_gt NaN c = False"

section \<open>Response processor\<close>

datatype error = TypeError

text \<open>
  A backend hit. \<open>hit_score\<close> is \<open>None\<close> when \<open>_score\<close> is \<open>null\<close>, as it is for
  every hit of a query that is sorted by a field. \<open>hit_source\<close> is \<open>None\<close> when the hit
  has no \<open>_source\<close>.
  The document type \<open>'d\<close> is left open: the redaction of the source document
  (\<open>_deepOmit\<close> and the removal of \<open>lastNStats\<close>) is the parameter \<open>clean\<close> of
  \<open>processSource\<close>. \<open>hit_weight\<close> is the \<open>_weight\<close> the processed hit ends up
  with after the identity fields are laid over the document.
\<close>

record 'd hit =
  hit_id :: string
  hit_score :: "rat option"
  hit_type :: string
  hit_weight :: "rat option"
  hit_source :: "'d option"

record 'd hitOut =
  out_id :: string
  out_rawScore :: "rat option"
  out_type :: string
  out_weight :: "rat option"
  out_doc :: 'd

text \<open>
  The number that arithmetic on \<open>_score\<close> of a processed hit reads: the score itself,
  and 0 for a \<open>null\<close> score.
\<close>

definition out_score :: "'d hitOut \<Rightarrow> rat" where
  "out_score h = (case out_rawScore h of None \<Rightarrow> 0 | Some s \<Rightarrow> s)"

text \<open>\<open>_processSource\<close>: \<open>null\<close> for a hit without source.\<close>

definition processSource :: "('d \<Rightarrow> 'd) \<Rightarrow> 'd hit \<Rightarrow> 'd hitOut option" where
  "processSource clean h =
     (case hit_source h of
        None \<Rightarrow> None
      | Some d \<Rightarrow> Some \<lparr>out_id = hit_id h, out_rawScore = hit_score h, out_type = hit_type h,
                         out_weight = hit_weight h, out_doc = clean d\<rparr>)"

text \<open>
  The test of the relevancy cliff: \<open>previousScore == null || (score * 1.0) / previousScore > 0.40\<close>.
\<close>

definition cliffKeep :: "rat option \<Rightarrow> rat \<Rightarrow> bool" where
  "cliffKeep previousScore score =
     (case previousScore of
        None \<Rightarrow> True
      | Some p \<Rightarrow> js_gt (js_div (score * 1) p) (2 / 5))"

text \<open>
  The loop over \<open>response.hits.hits\<close> in \<open>_processResponse\<close>, with its two variables
  \<open>previousScore\<close> and \<open>results\<close>. Reading \<open>_score\<close> of a \<open>null\<close> processed hit
  throws. After a kept hit \<open>previousScore\<close> is that hit's \<open>_score\<close> as it is, so it
  stays \<open>null\<close> after a kept hit whose score is \<open>null\<close>.
\<close>

fun cliffLoop ::
  "('d \<Rightarrow> 'd) \<Rightarrow> 'd hit list \<Rightarrow> rat option \<Rightarrow> 'd hitOut list \<Rightarrow> error + 'd hitOut list" where
  "cliffLoop clean [] previousScore results = Inr results"
| "cliffLoop clean (h # hs) previousScore results =
     (case processSource clean h of
        None \<Rightarrow> Inl TypeError
      | Some hitOut \<Rightarrow>
          if cliffKeep previousScore (out_score hitOut)
          then cliffLoop clean hs (out_rawScore hitOut) (results @ [hitOut])
          else cliffLoop clean hs previousScore results)"

record 'd hitsPart =
  hits_total :: "int option"
  hits_hits :: "'d hit list option"

record 'd response =
  resp_hits :: "'d hitsPart option"
  resp_took :: int

text \<open>
  Modelled from the spec: the request schema (\<open>ApiSchemaBuilder\<close>) is not among the
  sources. A validated request carries the numbers \<open>page\<close> and \<open>count\<close>.
\<close>

record input =
  in_page :: int
  in_count :: int

text \<open>
  The part of the result of \<open>_processResponse\<close> that the merge, the ranker and the
  pagination read; the facet and summary output is left out. A page descriptor is
  modelled by its page number (the URL repeats it).
\<close>

record 'd result =
  res_type :: "string option"
  res_results :: "'d hitOut list"
  res_queryTimeTaken :: int
  res_totalResults :: int
  res_count :: int
  res_prevPage :: "int option"
  res_nextPage :: "int option"

definition keptHits :: "('d \<Rightarrow> 'd) \<Rightarrow> 'd response \<Rightarrow> error + 'd hitOut list" where
  "keptHits clean response =
     (case resp_hits response of
        None \<Rightarrow> Inr []
      | Some hp \<Rightarrow>
          (case hits_hits hp of
             None \<Rightarrow> Inr []
           | Some hs \<Rightarrow> cliffLoop clean hs None []))"

definition totalOf :: "'d response \<Rightarrow> int" where
  "totalOf response =
     (case resp_hits response of
        None \<Rightarrow> 0
      | Some hp \<Rightarrow> (case hits_total hp of None \<Rightarrow> 0 | Some t \<Rightarrow> t))"

definition processResponse ::
  "('d \<Rightarrow> 'd) \<Rightarrow> 'd response \<Rightarrow> string option \<Rightarrow> input \<Rightarrow> error + 'd result" where
  "processResponse clean response type inp =
     (case keptHits clean response of
        Inl e \<Rightarrow> Inl e
      | Inr results \<Rightarrow>
          (let prevPage = (if 0 < in_page inp then Some (in_page inp - 1) else None);
               count = int (length results);
               totalResults = totalOf response;
               nextPage = (if in_count inp * in_page inp + count < totalResults
                           then Some (in_page inp + 1) else None)
           in Inr \<lparr>res_type = type, res_results = results,
                   res_queryTimeTaken = resp_took response,
                   res_totalResults = totalResults, res_count = count,
                   res_prevPage = prevPage, res_nextPage = nextPage\<rparr>))"

text \<open>
  The reference score that the loop holds after it has produced the list \<open>ks\<close>:
  none before the first hit is kept, afterwards the \<open>_score\<close> of the last kept hit,
  which may be \<open>null\<close>.
\<close>

definition refScore :: "'d hitOut list \<Rightarrow> rat option" where
  "refScore ks = (if ks = [] then None else out_rawScore (last ks))"

text \<open>Concrete hits and responses for the worked examples.\<close>

definition scoreHit :: "rat \<Rightarrow> unit hit" where
  "scoreHit s = \<lparr>hit_id = [], hit_score = Some s, hit_type = [], hit_weight = None,
                 hit_source = Some ()\<rparr>"

text \<open>A hit of a sorted query, and what \<open>_processSource\<close> makes of it.\<close>

definition unscoredHit :: "unit hit" where
  "unscoredHit = \<lparr>hit_id = [], hit_score = None, hit_type = [], hit_weight = None,
                   hit_source = Some ()\<rparr>"

definition unscoredOut :: "unit hitOut" where
  "unscoredOut = \<lparr>out_id = [], out_rawScore = None, out_type = [], out_weight = None,
                   out_doc = ()\<rparr>"

text \<open>
  The relevancy cliff filter as the specification words it, on processed hits: the
  first hit is kept, and each later hit exactly when the ratio of its score to the
  score of the hit kept before it is greater than 0.40.
\<close>

fun specCliffFrom :: "rat \<Rightarrow> 'd hitOut list \<Rightarrow> 'd hitOut list" where
  "specCliffFrom reference [] = []"
| "specCliffFrom reference (h # hs) =
     (if js_gt (js_div (out_score h) reference) (2 / 5)
      then h # specCliffFrom (out_score h) hs
      else specCliffFrom reference hs)"

definition specCliff :: "'d hitOut list \<Rightarrow> 'd hitOut list" where
  "specCliff hs = (case hs of [] \<Rightarrow> [] | h # rest \<Rightarrow> h # specCliffFrom (out_score h) rest)"

definition scoreResponse :: "rat list \<Rightarrow> int \<Rightarrow> int \<Rightarrow> unit response" where
  "scoreResponse scores tot took =
     \<lparr>resp_hits = Some \<lparr>hits_total = Some tot, hits_hits = Some (map scoreHit scores)\<rparr>,
      resp_took = took\<rparr>"

section \<open>Multi-type merge\<close>

text \<open>
  A JavaScript object used as a dictionary keeps its keys in insertion order: an
  association list, where assigning to a key that is present replaces the value in
  place and a new key goes to the end.
\<close>

fun objSet :: "(string \<times> 'v) list \<Rightarrow> string \<Rightarrow> 'v \<Rightarrow> (string \<times> 'v) list" where
  "objSet [] k v = [(k, v)]"
| "objSet ((k', v') # kvs) k v = (if k' = k then (k, v) # kvs else (k', v') # objSet kvs k v)"

text \<open>
  The merged result, without the echo of the request (\<open>searchText\<close>, \<open>filter\<close>,
  \<open>sort\<close>, \<open>page\<close>) that the source copies into it. \<open>mr_queryTimeTaken\<close> is
  \<open>None\<close> until the first per-type result is merged.
\<close>

record 'd mergedResult =
  mr_totalResults :: int
  mr_results :: "(string \<times> 'd result) list"
  mr_count :: int
  mr_queryTimeTaken :: "int option"
  mr_prevPage :: "int option"
  mr_nextPage :: "int option"

text \<open>\<open>types && _.isArray(types) && types.length > index && types[index]\<close>\<close>

definition typeAt :: "string option list option \<Rightarrow> nat \<Rightarrow> string option" where
  "typeAt types index =
     (case types of
        None \<Rightarrow> None
      | Some ts \<Rightarrow> if index < length ts then ts ! index else None)"

text \<open>
  The guard \<open>!result.type || !result.results || result.results.length === 0\<close>
  negated: the per-type result is merged. An absent type and the empty string are
  both falsy.
\<close>

definition merged :: "'d result \<Rightarrow> bool" where
  "merged r =
     ((case res_type r of None \<Rightarrow> False | Some t \<Rightarrow> t \<noteq> []) \<and> res_results r \<noteq> [])"

text \<open>\<open>mergedResult.queryTimeTaken || 0\<close>\<close>

definition orZero :: "int option \<Rightarrow> int" where
  "orZero q = (case q of None \<Rightarrow> 0 | Some x \<Rightarrow> if x = 0 then 0 else x)"

definition mergeStep :: "'d mergedResult \<Rightarrow> 'd result \<Rightarrow> 'd mergedResult" where
  "mergeStep m r =
     (case res_type r of
        None \<Rightarrow> m
      | Some t \<Rightarrow>
          m\<lparr>mr_queryTimeTaken := Some (max (orZero (mr_queryTimeTaken m)) (res_queryTimeTaken r)),
            mr_results := objSet (mr_results m) t r,
            mr_totalResults := mr_totalResults m + res_totalResults r,
            mr_count := mr_count m + int (length (res_results r))\<rparr>)"

text \<open>
  The loop of \<open>processMultipleSearchResponse\<close> over \<open>responses.responses\<close>, from
  position \<open>index\<close> on.
\<close>

fun mergeLoop ::
  "('d \<Rightarrow> 'd) \<Rightarrow> string option list option \<Rightarrow> input \<Rightarrow> 'd response list \<Rightarrow> nat \<Rightarrow>
   'd mergedResult \<Rightarrow> error + 'd mergedResult" where
  "mergeLoop clean types inp [] index m = Inr m"
| "mergeLoop clean types inp (response # rest) index m =
     (case processResponse clean response (typeAt types index) inp of
        Inl e \<Rightarrow> Inl e
      | Inr r \<Rightarrow>
          if \<not> merged r then mergeLoop clean types inp rest (Suc index) m
          else mergeLoop clean types inp rest (Suc index) (mergeStep m r))"

definition processMultipleSearchResponse ::
  "('d \<Rightarrow> 'd) \<Rightarrow> 'd response list option \<Rightarrow> string option list option \<Rightarrow> input \<Rightarrow>
   error + 'd mergedResult option" where
  "processMultipleSearchResponse clean responses types inp =
     (case responses of
        None \<Rightarrow> Inr None
      | Some rs \<Rightarrow>
          (case mergeLoop clean types inp rs 0
                  \<lparr>mr_totalResults = 0, mr_results = [], mr_count = 0,
                   mr_queryTimeTaken = None, mr_prevPage = None, mr_nextPage = None\<rparr> of
             Inl e \<Rightarrow> Inl e
           | Inr m \<Rightarrow>
               Inr (Some (m\<lparr>mr_prevPage :=
                               (if 0 < in_page inp then Some (in_page inp - 1) else None),
                             mr_nextPage :=
                               (if in_count inp * in_page inp + mr_count m < mr_totalResults m
                                then Some (in_page inp + 1) else None)\<rparr>))))"

text \<open>
  The per-type results in submission order: response \<open>i\<close> processed with the
  \<open>i\<close>-th submitted type.
\<close>

fun perType ::
  "('d \<Rightarrow> 'd) \<Rightarrow> string option list option \<Rightarrow> input \<Rightarrow> 'd response list \<Rightarrow> nat \<Rightarrow>
   (error + 'd result) list" where
  "perType clean types inp [] index = []"
| "perType clean types inp (response # rest) index =
     processResponse clean response (typeAt types index) inp
       # perType clean types inp rest (Suc index)"

fun rights :: "('a + 'b) list \<Rightarrow> 'b list" where
  "rights [] = []"
| "rights (Inl a # xs) = rights xs"
| "rights (Inr b # xs) = b # rights xs"

text \<open>
  The merge as the specification words it: sums and maximum over all per-type
  results.
\<close>

definition specTotalResults :: "'d result list \<Rightarrow> int" where
  "specTotalResults rs = sum_list (map res_totalResults rs)"

definition specQueryTimeTaken :: "'d result list \<Rightarrow> int" where
  "specQueryTimeTaken rs = fold max (map res_queryTimeTaken rs) 0"

definition codeTotalResults :: "error + 'd mergedResult option \<Rightarrow> int option" where
  "codeTotalResults x =
     (case x of Inl e \<Rightarrow> None | Inr None \<Rightarrow> None | Inr (Some m) \<Rightarrow> Some (mr_totalResults m))"

definition codeQueryTimeTaken :: "error + 'd mergedResult option \<Rightarrow> int option" where
  "codeQueryTimeTaken x =
     (case x of Inl e \<Rightarrow> None | Inr None \<Rightarrow> None | Inr (Some m) \<Rightarrow> mr_queryTimeTaken m)"

definition typeName :: "'d result \<Rightarrow> string" where
  "typeName r = (case res_type r of None \<Rightarrow> [] | Some t \<Rightarrow> t)"

definition emptyMerged :: "'d mergedResult" where
  "emptyMerged = \<lparr>mr_totalResults = 0, mr_results = [], mr_count = 0,
                  mr_queryTimeTaken = None, mr_prevPage = None, mr_nextPage = None\<rparr>"

section \<open>Section composition\<close>

text \<open>
  A section as \<open>composeSections\<close> reads it: its \<open>results\<close> list and its
  \<open>totalResults\<close>, either of which may be absent. A \<open>null\<close> section response is
  \<open>None\<close>.
\<close>

record 'h searchSection =
  sec_name :: string
  sec_results :: "'h list option"
  sec_totalResults :: "int option"

record 'h composed =
  comp_results :: "'h searchSection list"
  comp_totalResults :: int

text \<open>The loop of \<open>composeSections\<close> with its variables \<open>totalResults\<close> and \<open>results\<close>.\<close>

fun composeLoop ::
  "'h searchSection option list \<Rightarrow> int \<Rightarrow> 'h searchSection list \<Rightarrow> int \<times> 'h searchSection list" where
  "composeLoop [] totalResults results = (totalResults, results)"
| "composeLoop (None # responses) totalResults results =
     composeLoop responses totalResults results"
| "composeLoop (Some response # responses) totalResults results =
     composeLoop responses
       (totalResults + (case sec_totalResults response of None \<Rightarrow> 0 | Some t \<Rightarrow> t))
       (results @ [response])"

text \<open>\<open>result.results && result.results.length > 0\<close>\<close>

definition hasResults :: "'h searchSection \<Rightarrow> bool" where
  "hasResults s = (case sec_results s of None \<Rightarrow> False | Some rs \<Rightarrow> 0 < length rs)"

definition composeSections :: "'h searchSection option list \<Rightarrow> 'h composed" where
  "composeSections sections =
     (case composeLoop sections 0 [] of
        (totalResults, results) \<Rightarrow>
          \<lparr>comp_results = filter hasResults results, comp_totalResults = totalResults\<rparr>)"

definition totalOrZero :: "'h searchSection \<Rightarrow> int" where
  "totalOrZero s = (case sec_totalResults s of None \<Rightarrow> 0 | Some t \<Rightarrow> t)"

fun nonNull :: "'a option list \<Rightarrow> 'a list" where
  "nonNull [] = []"
| "nonNull (None # xs) = nonNull xs"
| "nonNull (Some x # xs) = x # nonNull xs"

section \<open>Intent cascade\<close>

text \<open>
  The classification step of \<open>carDekhoIntentBasedSearch\<close>: \<open>searchType\<close> from the
  three probe hit counts (\<open>totalResults\<close> of the brand, model and variant probes,
  0 when absent); \<open>None\<close> is \<open>null\<close>.
\<close>

definition searchType :: "int \<Rightarrow> int \<Rightarrow> int \<Rightarrow> string option" where
  "searchType brandHits modelHits variantHits =
     (if brandHits \<noteq> 0 then
        (if brandHits = 1 then Some ''brand-single'' else Some ''brand-multi'')
      else if modelHits \<noteq> 0 then
        (if modelHits = 1 then Some ''model-single'' else Some ''model-multi'')
      else if variantHits \<noteq> 0 then
        (if variantHits = 1 then Some ''variant-single'' else Some ''variant-multi'')
      else None)"

text \<open>
  The composition the function goes on to build, named after the branch taken. The
  last composition is the one reached when no earlier test on \<open>searchType\<close> matches.
\<close>

datatype composition =
  Fallback | BrandSingle | BrandMulti | ModelSingle | ModelMulti | VariantSingle | VariantMulti

definition dispatch :: "string option \<Rightarrow> composition" where
  "dispatch st =
     (case st of
        None \<Rightarrow> Fallback
      | Some s \<Rightarrow>
          if s = ''brand-single'' then BrandSingle
          else if s = ''brand-multi'' then BrandMulti
          else if s = ''model-single'' then ModelSingle
          else if s = ''model-multi'' then ModelMulti
          else if s = ''variant-single'' then VariantSingle
          else VariantMulti)"

definition classify :: "int \<Rightarrow> int \<Rightarrow> int \<Rightarrow> composition" where
  "classify brandHits modelHits variantHits =
     dispatch (searchType brandHits modelHits variantHits)"

text \<open>
  The classification as the specification words it: the probes inspected
  most-specific first, that is variant, then model, then brand.
\<close>

definition specClassify :: "int \<Rightarrow> int \<Rightarrow> int \<Rightarrow> composition" where
  "specClassify brandHits modelHits variantHits =
     (if variantHits = 1 then VariantSingle
      else if 1 < variantHits then VariantMulti
      else if modelHits = 1 then ModelSingle
      else if 1 < modelHits then ModelMulti
      else if brandHits = 1 then BrandSingle
      else if 1 < brandHits then BrandMulti
      else Fallback)"

section \<open>Relevancy-deflection ranker\<close>

text \<open>
  What \<open>_searchInternal\<close> hands to \<open>suggestedQueries\<close>: the merged result of a
  multi-type search (its \<open>multi\<close> flag set) or the result of a single or flat search.
\<close>

datatype 'd searchResponse = MultiResponse "'d mergedResult" | SingleResponse "'d result"

text \<open>
  The response returned: for a multi response the merged result with its \<open>results\<close>
  replaced by one flat list of hits, otherwise the response as it came.
\<close>

datatype 'd suggestedResponse =
  RankedResponse "'d mergedResult" "'d hitOut list" | UnchangedResponse "'d result"

text \<open>
  \<open>result._score / (result._weight || 1.0)\<close>: a weight that is absent or 0 counts as 1,
  and the division reads a \<open>null\<close> score as 0 (\<open>out_score\<close>), as does the comparator
  of the final sort.
\<close>

definition relevancyScore :: "'d hitOut \<Rightarrow> rat" where
  "relevancyScore h =
     out_score h / (case out_weight h of None \<Rightarrow> 1 | Some w \<Rightarrow> if w = 0 then 1 else w)"

text \<open>The hits of all result groups, in the order the two nested loops visit them.\<close>

definition groupHits :: "(string \<times> 'd result) list \<Rightarrow> 'd hitOut list" where
  "groupHits groups = concat (map (\<lambda>g. res_results (snd g)) groups)"

text \<open>
  \<open>Array.prototype.sort\<close> with the comparator \<open>b - a\<close> sorts in descending order;
  it is modelled by the stable insertion sort of the library on the negated key.
\<close>

definition sortDescBy :: "('a \<Rightarrow> rat) \<Rightarrow> 'a list \<Rightarrow> 'a list" where
  "sortDescBy key xs = sort_key (\<lambda>x. - key x) xs"

text \<open>
  The scan for the deflection point, with its variable \<open>previousScore\<close>; the result is
  \<open>deflectionScore\<close>, which stays 0 when the scan runs to the end. The test is
  \<open>previousScore && score < 0.5 * previousScore\<close>.
\<close>

fun deflectionLoop :: "rat list \<Rightarrow> rat \<Rightarrow> rat" where
  "deflectionLoop [] previousScore = 0"
| "deflectionLoop (score # scores) previousScore =
     (if previousScore \<noteq> 0 \<and> score < (1 / 2) * previousScore then previousScore
      else deflectionLoop scores score)"

definition deflectionScore :: "'d hitOut list \<Rightarrow> rat" where
  "deflectionScore hits = deflectionLoop (sortDescBy id (map relevancyScore hits)) 0"

definition rankedResults :: "(string \<times> 'd result) list \<Rightarrow> 'd hitOut list" where
  "rankedResults groups =
     sortDescBy out_score
       (filter (\<lambda>h. deflectionScore (groupHits groups) \<le> relevancyScore h) (groupHits groups))"

definition suggestedQueries :: "'d searchResponse \<Rightarrow> 'd suggestedResponse" where
  "suggestedQueries response =
     (case response of
        MultiResponse m \<Rightarrow> RankedResponse m (rankedResults (mr_results m))
      | SingleResponse r \<Rightarrow> UnchangedResponse r)"

text \<open>
  A sharp drop between positions \<open>i\<close> and \<open>i + 1\<close> of a score list, as the scan tests it.
\<close>

definition dropAt :: "rat list \<Rightarrow> nat \<Rightarrow> bool" where
  "dropAt xs i = (xs ! i \<noteq> 0 \<and> xs ! Suc i < xs ! i / 2)"

text \<open>
  The scan as the specification words it: the threshold is fixed the first time a
  score is at most 50% of the previous score.
\<close>

fun specDeflectionLoop :: "rat list \<Rightarrow> rat \<Rightarrow> rat" where
  "specDeflectionLoop [] previousScore = 0"
| "specDeflectionLoop (score # scores) previousScore =
     (if previousScore \<noteq> 0 \<and> score \<le> (1 / 2) * previousScore then previousScore
      else specDeflectionLoop scores score)"

definition specDeflectionScore :: "'d hitOut list \<Rightarrow> rat" where
  "specDeflectionScore hits = specDeflectionLoop (sortDescBy id (map relevancyScore hits)) 0"

definition scoredOut :: "rat \<Rightarrow> unit hitOut" where
  "scoredOut s =
     \<lparr>out_id = [], out_rawScore = Some s, out_type = [], out_weight = None, out_doc = ()\<rparr>"

definition scoredGroup :: "string \<Rightarrow> rat list \<Rightarrow> string \<times> unit result" where
  "scoredGroup t scores =
     (t, \<lparr>res_type = Some t, res_results = map scoredOut scores, res_queryTimeTaken = 0,
          res_totalResults = int (length scores), res_count = int (length scores),
          res_prevPage = None, res_nextPage = None\<rparr>)"

definition specRankedResults :: "(string \<times> 'd result) list \<Rightarrow> 'd hitOut list" where
  "specRankedResults groups =
     sortDescBy out_score
       (filter (\<lambda>h. specDeflectionScore (groupHits groups) \<le> relevancyScore h)
          (groupHits groups))"

section \<open>Error boundary\<close>

text \<open>
  A thrown or rejected value: an error object with its \<open>_errorCode\<close>, \<open>cause\<close>,
  \<open>details\<close> and \<open>stack\<close>, each possibly absent.
\<close>

datatype jsError =
  JsError (errorCode: "string option") (message: string) (cause: "jsError option")
    (details: "jsError option") (stack: "string option")

text \<open>
  Modelled from the spec: the classes \<open>ValidationError\<close> and \<open>InternalServiceError\<close>
  come from the package \<open>humane-node-commons\<close>, which is not among the sources. An
  error of the first kind carries the \<open>_errorCode\<close> \<open>VALIDATION_ERROR\<close>, one of the
  second kind \<open>INTERNAL_SERVICE_ERROR\<close> (the codes \<open>errorWrap\<close> tests for), and
  \<open>new InternalServiceError(message, {details, stack})\<close> stores the details and the
  stack it is given.
\<close>

definition newInternalServiceError :: "string \<Rightarrow> jsError option \<Rightarrow> string option \<Rightarrow> jsError" where
  "newInternalServiceError msg det st =
     JsError (Some ''INTERNAL_SERVICE_ERROR'') msg None det st"

definition isValidationError :: "jsError \<Rightarrow> bool" where
  "isValidationError e = (errorCode e = Some ''VALIDATION_ERROR'')"

definition isInternalServiceError :: "jsError \<Rightarrow> bool" where
  "isInternalServiceError e = (errorCode e = Some ''INTERNAL_SERVICE_ERROR'')"

text \<open>
  A settled promise; the reason of a rejection may be \<open>null\<close> or \<open>undefined\<close>
  (\<open>None\<close>).
\<close>

datatype 'a settled = Resolved 'a | Rejected "jsError option"

text \<open>
  What the handler itself throws when the reason of the rejection is \<open>null\<close> or
  \<open>undefined\<close>: it reads \<open>error.stack\<close> for its log line before any test.
\<close>

definition stackOfNothing :: jsError where
  "stackOfNothing = JsError None ''TypeError'' None None None"

text \<open>\<open>errorWrap\<close>: the handler installed on the promise of an operation.\<close>

definition errorWrap :: "'a settled \<Rightarrow> 'a settled" where
  "errorWrap promise =
     (case promise of
        Resolved v \<Rightarrow> Resolved v
      | Rejected error \<Rightarrow>
          (case error of
             None \<Rightarrow> Rejected (Some stackOfNothing)
           | Some e \<Rightarrow>
               if errorCode e = Some ''VALIDATION_ERROR''
                  \<or> errorCode e = Some ''INTERNAL_SERVICE_ERROR''
               then Rejected (Some e)
               else Rejected (Some (newInternalServiceError ''Internal Service Error''
                      (case cause e of Some c \<Rightarrow> Some c | None \<Rightarrow> Some e) (stack e)))))"

text \<open>
  An operation of the inner searcher either throws while it is being called or
  returns a promise. Every public operation has the shape
  \<open>this.errorWrap(name, request, this.internal.op(headers, request))\<close>: the inner
  call is evaluated first, so what it throws never reaches \<open>errorWrap\<close>.
\<close>

datatype 'a called = Throws jsError | Returns "'a settled"

definition boundary :: "'a called \<Rightarrow> 'a called" where
  "boundary inner =
     (case inner of
        Throws e \<Rightarrow> Throws e
      | Returns promise \<Rightarrow> Returns (errorWrap promise))"

text \<open>
  The boundary as the specification words it: a validation error passes unchanged,
  every other error is rewrapped as an internal service error that keeps the cause.
\<close>

definition specWrap :: "jsError \<Rightarrow> jsError" where
  "specWrap e =
     (if isValidationError e then e
      else newInternalServiceError ''Internal Service Error''
             (case cause e of Some c \<Rightarrow> Some c | None \<Rightarrow> Some e) (stack e))"

definition serviceFailure :: jsError where
  "serviceFailure = JsError (Some ''INTERNAL_SERVICE_ERROR'') ''backend down'' None None None"

definition validationFailure :: jsError where
  "validationFailure = JsError (Some ''VALIDATION_ERROR'') ''No input provided'' None None None"

definition timeoutFailure :: jsError where
  "timeoutFailure = JsError None ''Request Timeout'' None None (Some ''at ESClient'')"

section \<open>Query compiler\<close>

subsection \<open>Values of the request and of the configuration\<close>

text \<open>
  A value as it arrives in a request or sits in the configuration. Property reads
  see own properties only (inherited members such as the methods of arrays are not
  modelled).
\<close>

datatype jv =
  JUndefined | JNull | JBool bool | JNum rat | JStr string | JArr "jv list"
  | JObj "(string \<times> jv) list"

fun truthy :: "jv \<Rightarrow> bool" where
  "truthy JUndefined = False"
| "truthy JNull = False"
| "truthy (JBool b) = b"
| "truthy (JNum n) = (n \<noteq> 0)"
| "truthy (JStr s) = (s \<noteq> [])"
| "truthy (JArr xs) = True"
| "truthy (JObj kvs) = True"

text \<open>\<open>v.k\<close> for a value that is neither \<open>null\<close> nor \<open>undefined\<close>.\<close>

fun ownProp :: "jv \<Rightarrow> string \<Rightarrow> jv" where
  "ownProp (JObj kvs) k = (case map_of kvs k of None \<Rightarrow> JUndefined | Some v \<Rightarrow> v)"
| "ownProp v k = JUndefined"

text \<open>\<open>v.k\<close> in general: reading a property of \<open>null\<close> or \<open>undefined\<close> throws.\<close>

definition getProp :: "jv \<Rightarrow> string \<Rightarrow> error + jv" where
  "getProp v k =
     (case v of JUndefined \<Rightarrow> Inl TypeError | JNull \<Rightarrow> Inl TypeError | _ \<Rightarrow> Inr (ownProp v k))"

text \<open>\<open>isValidValue\<close>: neither \<open>undefined\<close> nor \<open>null\<close>.\<close>

definition isValidValue :: "jv \<Rightarrow> bool" where
  "isValidValue v = (v \<noteq> JUndefined \<and> v \<noteq> JNull)"

fun isObject :: "jv \<Rightarrow> bool" where
  "isObject (JArr xs) = True"
| "isObject (JObj kvs) = True"
| "isObject v = False"

text \<open>\<open>_.isEmpty\<close>\<close>

fun isEmptyJ :: "jv \<Rightarrow> bool" where
  "isEmptyJ (JStr s) = (s = [])"
| "isEmptyJ (JArr xs) = (xs = [])"
| "isEmptyJ (JObj kvs) = (kvs = [])"
| "isEmptyJ v = True"

text \<open>
  \<open>a === b\<close> between a request value and a configured key: equal primitives; an
  array or object of the request is never identical to one of the configuration.
\<close>

fun strictEq :: "jv \<Rightarrow> jv \<Rightarrow> bool" where
  "strictEq (JArr xs) b = False"
| "strictEq (JObj kvs) b = False"
| "strictEq a b = (a = b)"

subsection \<open>Configuration\<close>

text \<open>
  A field configuration: a query field, a filter configuration, or the object that
  \<open>filterQueries\<close> and \<open>facetQueries\<close> assemble for \<open>buildFieldQuery\<close>. The flags
  \<open>fc_filter\<close>, \<open>fc_termQuery\<close>, \<open>fc_rangeQuery\<close> and \<open>fc_includeMissing\<close> are read
  for their truthiness only. \<open>fc_value\<close> is the transform function \<open>value\<close> of a
  filter configuration, \<open>fc_type\<close> its \<open>type\<close>.
\<close>

record fieldConfig =
  fc_field :: string
  fc_weight :: "rat option"
  fc_vernacularOnly :: "bool option"
  fc_keyword :: "bool option"
  fc_noFuzzy :: "bool option"
  fc_nestedPath :: "string option"
  fc_filter :: bool
  fc_termQuery :: bool
  fc_rangeQuery :: bool
  fc_includeMissing :: bool
  fc_type :: "string option"
  fc_defaultValue :: jv
  fc_value :: "(jv \<Rightarrow> jv) option"

record filterFacet =
  ff_key :: jv
  ff_filter :: jv

record rangeFacet =
  rf_key :: jv
  rf_from :: jv
  rf_to :: jv

record facetConfig =
  fct_key :: string
  fct_type :: string
  fct_field :: string
  fct_nestedPath :: "string option"
  fct_includeMissing :: bool
  fct_filters :: "filterFacet list"
  fct_ranges :: "rangeFacet list"

record indexType =
  it_type :: string
  it_index :: string
  it_queryFields :: "fieldConfig list option"
  it_filters :: "(string \<times> fieldConfig) list option"
  it_facets :: "facetConfig list option"

record searchTypeConfig =
  st_queryFields :: "fieldConfig list option"
  st_filters :: "(string \<times> fieldConfig) list option"
  st_facets :: "facetConfig list option"
  st_indexType :: indexType

text \<open>The validated request: paging as before, and what the compiler reads.\<close>

record request = input +
  rq_text :: "string option"
  rq_filter :: "(string \<times> jv) list option"
  rq_lang :: jv
  rq_fuzzySearch :: bool

subsection \<open>Clauses\<close>

record humane =
  hq_field :: string
  hq_instance :: string
  hq_intentFields :: "string list option"
  hq_query :: jv
  hq_boost :: "rat option"
  hq_vernacularOnly :: "bool option"
  hq_keyword :: "bool option"
  hq_noFuzzy :: "bool option"

record multiField =
  mf_field :: string
  mf_boost :: "rat option"
  mf_vernacularOnly :: "bool option"
  mf_keyword :: "bool option"
  mf_path :: "string option"
  mf_noFuzzy :: "bool option"

record multiHumane =
  mq_query :: string
  mq_instance :: string
  mq_intentFields :: "string list option"
  mq_fields :: "multiField list"

text \<open>
  The clauses the compiler emits: \<open>{range: {f: {gte, lt}}}\<close>, \<open>{term: {f: v}}\<close>,
  \<open>{terms: {f: vs}}\<close>, \<open>{bool: {must: {exists: {field}}}}\<close>,
  \<open>{bool: {must_not: {exists: {field}}}}\<close>,
  \<open>{bool: {should: qs, minimum_should_match: 1}}\<close>, \<open>{nested: {path, query}}\<close>,
  \<open>{constant_score: {query, boost}}\<close>, \<open>{humane_query: {f: \<dots>}}\<close>,
  \<open>{multi_humane_query: \<dots>}\<close>, and a clause taken as it is from the filter table of
  a facet.
\<close>

datatype query =
  Range string jv jv
  | Term string jv
  | Terms string "jv list"
  | Exists string
  | Missing string
  | BoolShould "query list"
  | Nested string query
  | ConstantScore query rat
  | HumaneQuery humane
  | MultiHumaneQuery multiHumane
  | Configured jv

text \<open>\<open>query.humane_query || query.multi_humane_query\<close>\<close>

fun isHumane :: "query \<Rightarrow> bool" where
  "isHumane (HumaneQuery h) = True"
| "isHumane (MultiHumaneQuery m) = True"
| "isHumane q = False"

definition constantScoreQuery :: "fieldConfig \<Rightarrow> query \<Rightarrow> query" where
  "constantScoreQuery fieldConfig query =
     (if fc_filter fieldConfig \<or> isHumane query then query
      else
        (let boost = (case fc_weight fieldConfig of
                        None \<Rightarrow> 1
                      | Some w \<Rightarrow> if w = 0 then 1 else w)
         in if boost = 1 then query else ConstantScore query boost))"

definition wrapQuery :: "fieldConfig \<Rightarrow> query \<Rightarrow> query" where
  "wrapQuery fieldConfig query =
     constantScoreQuery fieldConfig
       (case fc_nestedPath fieldConfig of
          None \<Rightarrow> query
        | Some path \<Rightarrow> if path = [] then query else Nested path query)"

definition humaneQuery :: "string \<Rightarrow> fieldConfig \<Rightarrow> jv \<Rightarrow> string list option \<Rightarrow> query" where
  "humaneQuery instanceName fieldConfig text intentFields =
     HumaneQuery \<lparr>hq_field = fc_field fieldConfig, hq_instance = instanceName,
                  hq_intentFields = intentFields, hq_query = text,
                  hq_boost = fc_weight fieldConfig,
                  hq_vernacularOnly = fc_vernacularOnly fieldConfig,
                  hq_keyword = fc_keyword fieldConfig, hq_noFuzzy = fc_noFuzzy fieldConfig\<rparr>"

definition termQuery :: "fieldConfig \<Rightarrow> jv \<Rightarrow> query" where
  "termQuery fieldConfig text =
     (case text of
        JArr xs \<Rightarrow> Terms (fc_field fieldConfig) xs
      | _ \<Rightarrow> Term (fc_field fieldConfig) text)"

fun boolShouldQueries :: "query list \<Rightarrow> query option" where
  "boolShouldQueries [] = None"
| "boolShouldQueries [q] = Some q"
| "boolShouldQueries qs = Some (BoolShould qs)"

definition missingQuery :: "string \<Rightarrow> query" where
  "missingQuery field = Missing field"

definition existsQuery :: "string \<Rightarrow> query" where
  "existsQuery field = Exists field"

subsection \<open>\<open>buildFieldQuery\<close>\<close>

text \<open>The loop that turns each \<open>{from, to}\<close> of a range value into a range clause.\<close>

fun rangeQueries :: "string \<Rightarrow> jv list \<Rightarrow> error + query list" where
  "rangeQueries field [] = Inr []"
| "rangeQueries field (oneValue # rest) =
     (case getProp oneValue ''from'' of
        Inl e \<Rightarrow> Inl e
      | Inr fromV \<Rightarrow>
          (case getProp oneValue ''to'' of
             Inl e \<Rightarrow> Inl e
           | Inr toV \<Rightarrow>
               (case rangeQueries field rest of
                  Inl e \<Rightarrow> Inl e
                | Inr qs \<Rightarrow> Inr (Range field fromV toV # qs))))"

text \<open>\<open>_.isArray(v) ? v : [v]\<close>\<close>

definition asArray :: "jv \<Rightarrow> jv list" where
  "asArray v = (case v of JArr xs \<Rightarrow> xs | _ \<Rightarrow> [v])"

text \<open>
  The clause \<open>buildFieldQuery\<close> computes and returns: \<open>None\<close> is \<open>null\<close>. In the
  range branch the parameter is reassigned to an array, so the later comparison
  with the sentinel \<open>__not_empty__\<close> is made on that array.
\<close>

definition fieldQuery ::
  "string \<Rightarrow> fieldConfig \<Rightarrow> jv \<Rightarrow> string list option \<Rightarrow> error + query option" where
  "fieldQuery instanceName fieldConfig valueOrArrayOfValue intentFields =
     (let ranged = (fc_filter fieldConfig \<and> fc_rangeQuery fieldConfig);
          value' = (if ranged then JArr (asArray valueOrArrayOfValue) else valueOrArrayOfValue);
          first =
            (if ranged then
               (case rangeQueries (fc_field fieldConfig) (asArray valueOrArrayOfValue) of
                  Inl e \<Rightarrow> Inl e
                | Inr matchingRangeQueries \<Rightarrow> Inr (boolShouldQueries matchingRangeQueries))
             else if fc_filter fieldConfig \<and> fc_termQuery fieldConfig then
               (if valueOrArrayOfValue = JStr ''__not_empty__''
                then Inr (Some (existsQuery (fc_field fieldConfig)))
                else Inr (Some (termQuery fieldConfig valueOrArrayOfValue)))
             else Inr (Some (humaneQuery instanceName fieldConfig valueOrArrayOfValue intentFields)))
      in case first of
           Inl e \<Rightarrow> Inl e
         | Inr None \<Rightarrow> Inr None
         | Inr (Some query) \<Rightarrow>
             (let wrapped = wrapQuery fieldConfig query
              in if fc_filter fieldConfig
                    \<and> (fc_termQuery fieldConfig \<or> fc_rangeQuery fieldConfig)
                    \<and> fc_includeMissing fieldConfig
                    \<and> value' \<noteq> JStr ''__not_empty__''
                 then Inr (boolShouldQueries
                             [wrapped, wrapQuery fieldConfig (missingQuery (fc_field fieldConfig))])
                 else Inr (Some wrapped)))"

text \<open>
  \<open>buildFieldQuery\<close> with the array \<open>queries\<close> it pushes to: the returned list is the
  array afterwards.
\<close>

definition buildFieldQuery ::
  "string \<Rightarrow> fieldConfig \<Rightarrow> jv \<Rightarrow> query list \<Rightarrow> string list option \<Rightarrow> error + query list" where
  "buildFieldQuery instanceName fieldConfig valueOrArrayOfValue queries intentFields =
     (case fieldQuery instanceName fieldConfig valueOrArrayOfValue intentFields of
        Inl e \<Rightarrow> Inl e
      | Inr None \<Rightarrow> Inr queries
      | Inr (Some query) \<Rightarrow> Inr (queries @ [query]))"

text \<open>
  The field-absent alternative as the specification words it: added to the
  value-match clause whenever \<open>includeMissing\<close> is set and the value is not the
  sentinel.
\<close>

definition specIncludeMissing :: "fieldConfig \<Rightarrow> jv \<Rightarrow> query \<Rightarrow> query" where
  "specIncludeMissing fieldConfig v clause =
     (if fc_includeMissing fieldConfig \<and> v \<noteq> JStr ''__not_empty__''
      then BoolShould [clause, wrapQuery fieldConfig (missingQuery (fc_field fieldConfig))]
      else clause)"

text \<open>A configuration that sets nothing but the field.\<close>

definition plainField :: "string \<Rightarrow> fieldConfig" where
  "plainField field =
     \<lparr>fc_field = field, fc_weight = None, fc_vernacularOnly = None, fc_keyword = None,
      fc_noFuzzy = None, fc_nestedPath = None, fc_filter = False, fc_termQuery = False,
      fc_rangeQuery = False, fc_includeMissing = False, fc_type = None,
      fc_defaultValue = JUndefined, fc_value = None\<rparr>"

subsection \<open>\<open>buildTypeQuery\<close>\<close>

text \<open>
  \<open>searchTypeConfig.queryFields || indexTypeConfig.queryFields\<close> without the fields
  marked \<open>vernacularOnly\<close>. The result of the lodash chain is always an array, so the
  test \<open>!queryFields\<close> that follows in the source never holds.
\<close>

definition activeQueryFields :: "searchTypeConfig \<Rightarrow> fieldConfig list" where
  "activeQueryFields searchTypeConfig =
     filter (\<lambda>queryField. fc_vernacularOnly queryField \<noteq> Some True)
       (case st_queryFields searchTypeConfig of
          Some qfs \<Rightarrow> qfs
        | None \<Rightarrow>
            (case it_queryFields (st_indexType searchTypeConfig) of
               Some qfs \<Rightarrow> qfs
             | None \<Rightarrow> []))"

text \<open>\<open>!fuzzySearch || queryField.noFuzzy\<close>\<close>

definition noFuzzyOf :: "bool \<Rightarrow> fieldConfig \<Rightarrow> bool option" where
  "noFuzzyOf fuzzySearch queryField = (if \<not> fuzzySearch then Some True else fc_noFuzzy queryField)"

text \<open>
  \<open>buildTypeQuery\<close>: \<open>None\<close> is the empty object returned for an absent or empty
  text, otherwise the \<open>query\<close> of the returned object.
\<close>

definition buildTypeQuery ::
  "string \<Rightarrow> searchTypeConfig \<Rightarrow> string option \<Rightarrow> bool \<Rightarrow> string list option \<Rightarrow> query option" where
  "buildTypeQuery instanceName searchTypeConfig text fuzzySearch intentFields =
     (case text of
        None \<Rightarrow> None
      | Some t \<Rightarrow>
          if t = [] then None
          else
            (case activeQueryFields searchTypeConfig of
               [queryField] \<Rightarrow>
                 Some (wrapQuery queryField
                   (HumaneQuery \<lparr>hq_field = fc_field queryField, hq_instance = instanceName,
                      hq_intentFields = intentFields, hq_query = JStr t,
                      hq_boost = fc_weight queryField,
                      hq_vernacularOnly = fc_vernacularOnly queryField,
                      hq_keyword = fc_keyword queryField,
                      hq_noFuzzy = noFuzzyOf fuzzySearch queryField\<rparr>))
             | queryFields \<Rightarrow>
                 Some (MultiHumaneQuery
                   \<lparr>mq_query = t, mq_instance = instanceName, mq_intentFields = intentFields,
                    mq_fields =
                      map (\<lambda>queryField.
                             \<lparr>mf_field = fc_field queryField, mf_boost = fc_weight queryField,
                              mf_vernacularOnly = fc_vernacularOnly queryField,
                              mf_keyword = fc_keyword queryField,
                              mf_path = fc_nestedPath queryField,
                              mf_noFuzzy = noFuzzyOf fuzzySearch queryField\<rparr>)
                          queryFields\<rparr>)))"

text \<open>The clause inside the nested-document and constant-score envelopes.\<close>

fun unwrapped :: "query \<Rightarrow> query" where
  "unwrapped (Nested path q) = unwrapped q"
| "unwrapped (ConstantScore q boost) = unwrapped q"
| "unwrapped q = q"

definition weighted :: "string \<Rightarrow> rat \<Rightarrow> fieldConfig" where
  "weighted field w = (plainField field)\<lparr>fc_weight := Some w\<rparr>"

definition typeOf :: "fieldConfig list \<Rightarrow> searchTypeConfig" where
  "typeOf qfs =
     \<lparr>st_queryFields = Some qfs, st_filters = None, st_facets = None,
      st_indexType = \<lparr>it_type = ''car'', it_index = ''car_store'', it_queryFields = None,
                      it_filters = None, it_facets = None\<rparr>\<rparr>"

definition fuelFilter :: fieldConfig where
  "fuelFilter = (plainField ''fuel'')\<lparr>fc_filter := True, fc_includeMissing := True\<rparr>"

subsection \<open>\<open>filterQueries\<close> and \<open>facetQueries\<close>\<close>

text \<open>
  What both functions return: \<open>undefined\<close> for no clause, the clause itself for one,
  the array of clauses for more.
\<close>

datatype compiled = NoClause | OneClause query | ManyClauses "query list"

fun collapse :: "query list \<Rightarrow> compiled" where
  "collapse [] = NoClause"
| "collapse [q] = OneClause q"
| "collapse qs = ManyClauses qs"

text \<open>\<open>input.filter[key]\<close>, \<open>undefined\<close> when the request has no filter or no such key.\<close>

definition requested :: "request \<Rightarrow> string \<Rightarrow> jv" where
  "requested inp key =
     (case rq_filter inp of None \<Rightarrow> JUndefined | Some f \<Rightarrow> ownProp (JObj f) key)"

text \<open>
  The chain that unwraps \<open>{value | values | range | ranges}\<close>: the value to use and
  the flag \<open>range\<close>. Own properties only: where the runtime gives arrays an inherited
  \<open>values\<close> method, the source takes that method for the value of an array, which is
  not modelled.
\<close>

definition unwrapValue :: "jv \<Rightarrow> jv \<times> bool" where
  "unwrapValue filterValue =
     (if truthy (ownProp filterValue ''value'') then (ownProp filterValue ''value'', False)
      else if truthy (ownProp filterValue ''values'') then (ownProp filterValue ''values'', False)
      else if truthy (ownProp filterValue ''range'') then (ownProp filterValue ''range'', True)
      else if truthy (ownProp filterValue ''ranges'') then (ownProp filterValue ''ranges'', True)
      else (filterValue, False))"

text \<open>
  The callback of the loop of \<open>filterQueries\<close> over the filter configurations, for
  the entry \<open>key\<close>; the result is the array \<open>filterQueries\<close> afterwards.
\<close>

definition filterCallback ::
  "string \<Rightarrow> request \<Rightarrow> string list option \<Rightarrow> query list \<Rightarrow> string \<Rightarrow> fieldConfig \<Rightarrow>
   error + query list" where
  "filterCallback instanceName inp intentFields filterQueries key filterConfig =
     (if fc_type filterConfig = Some ''post'' then Inr filterQueries
      else
        (let filterValue =
               (if rq_filter inp \<noteq> None \<and> isValidValue (requested inp key)
                then requested inp key
                else if truthy (fc_defaultValue filterConfig) then fc_defaultValue filterConfig
                else JNull)
         in if isValidValue filterValue \<and> filterValue \<noteq> JStr ''__all__'' then
              (let filterType = (if isObject filterValue then ownProp filterValue ''type''
                                 else JNull);
                   unwrappedValue = (if isObject filterValue then unwrapValue filterValue
                                     else (filterValue, False));
                   range = snd unwrappedValue
               in if truthy filterType \<and> filterType = JStr ''facet'' then Inr filterQueries
                  else
                    buildFieldQuery instanceName
                      (filterConfig\<lparr>fc_filter := True, fc_rangeQuery := range,
                                     fc_termQuery := (\<not> range \<and> fc_termQuery filterConfig)\<rparr>)
                      (case fc_value filterConfig of
                         None \<Rightarrow> fst unwrappedValue
                       | Some f \<Rightarrow> f (fst unwrappedValue))
                      filterQueries intentFields)
            else Inr filterQueries))"

fun filterLoop ::
  "string \<Rightarrow> request \<Rightarrow> string list option \<Rightarrow> (string \<times> fieldConfig) list \<Rightarrow> query list \<Rightarrow>
   error + query list" where
  "filterLoop instanceName inp intentFields [] filterQueries = Inr filterQueries"
| "filterLoop instanceName inp intentFields ((key, filterConfig) # rest) filterQueries =
     (case filterCallback instanceName inp intentFields filterQueries key filterConfig of
        Inl e \<Rightarrow> Inl e
      | Inr filterQueries' \<Rightarrow> filterLoop instanceName inp intentFields rest filterQueries')"

text \<open>
  \<open>_.extend({filter: true}, filterConfigs.lang)\<close>; without a \<open>lang\<close> entry the
  object has no field, and the computed key of the clause is the string
  \<open>undefined\<close>. A filter configuration is taken not to set \<open>filter\<close> itself (the
  flag is the compiler's own), so the flag of the result is set.
\<close>

definition langConfig :: "(string \<times> fieldConfig) list \<Rightarrow> fieldConfig" where
  "langConfig filterConfigs =
     (case map_of filterConfigs ''lang'' of
        None \<Rightarrow> (plainField ''undefined'')\<lparr>fc_filter := True\<rparr>
      | Some c \<Rightarrow> c\<lparr>fc_filter := True\<rparr>)"

definition filterConfigsOf :: "searchTypeConfig \<Rightarrow> (string \<times> fieldConfig) list option" where
  "filterConfigsOf searchTypeConfig =
     (case st_filters searchTypeConfig of
        Some fs \<Rightarrow> Some fs
      | None \<Rightarrow> it_filters (st_indexType searchTypeConfig))"

definition filterQueries ::
  "string \<Rightarrow> searchTypeConfig \<Rightarrow> request \<Rightarrow> string list option \<Rightarrow> string list option \<Rightarrow>
   error + compiled" where
  "filterQueries instanceName searchTypeConfig inp termLanguages intentFields =
     (case filterConfigsOf searchTypeConfig of
        None \<Rightarrow> Inr NoClause
      | Some filterConfigs \<Rightarrow>
          (case filterLoop instanceName inp intentFields filterConfigs [] of
             Inl e \<Rightarrow> Inl e
           | Inr qs1 \<Rightarrow>
               (case (if truthy (rq_lang inp) \<and> \<not> isEmptyJ (rq_lang inp)
                      then buildFieldQuery instanceName (langConfig filterConfigs) (rq_lang inp)
                             qs1 intentFields
                      else Inr qs1) of
                  Inl e \<Rightarrow> Inl e
                | Inr qs2 \<Rightarrow>
                    (case (case termLanguages of
                             None \<Rightarrow> Inr qs2
                           | Some langs \<Rightarrow>
                               if langs \<noteq> []
                               then buildFieldQuery instanceName (langConfig filterConfigs)
                                      (JArr (map JStr langs)) qs2 intentFields
                               else Inr qs2) of
                       Inl e \<Rightarrow> Inl e
                     | Inr qs3 \<Rightarrow> Inr (collapse qs3)))))"

text \<open>The clauses a facet of kind \<open>filters\<close> selects from its filter table.\<close>

definition matchingFilters :: "facetConfig \<Rightarrow> jv list \<Rightarrow> query list" where
  "matchingFilters facetConfig values =
     concat (map (\<lambda>oneValue.
                    map (\<lambda>filterFacetConfig. Configured (ff_filter filterFacetConfig))
                      (filter (\<lambda>filterFacetConfig. strictEq oneValue (ff_key filterFacetConfig))
                         (fct_filters facetConfig)))
                 values)"

text \<open>The clauses a facet of kind \<open>ranges\<close> selects from its range table.\<close>

definition matchingRanges :: "facetConfig \<Rightarrow> jv list \<Rightarrow> query list" where
  "matchingRanges facetConfig values =
     concat (map (\<lambda>oneValue.
                    map (\<lambda>filterRangeConfig.
                           Range (fct_field facetConfig) (rf_from filterRangeConfig)
                             (rf_to filterRangeConfig))
                      (filter (\<lambda>filterRangeConfig. strictEq oneValue (rf_key filterRangeConfig))
                         (fct_ranges facetConfig)))
                 values)
     @ (if fct_includeMissing facetConfig then [missingQuery (fct_field facetConfig)] else [])"

definition pushIfAny :: "query list \<Rightarrow> query option \<Rightarrow> query list" where
  "pushIfAny queries q = (case q of None \<Rightarrow> queries | Some query \<Rightarrow> queries @ [query])"

text \<open>The callback of the loop of \<open>facetQueries\<close> over the facet configurations.\<close>

definition facetCallback ::
  "string \<Rightarrow> request \<Rightarrow> string list option \<Rightarrow> query list \<Rightarrow> facetConfig \<Rightarrow> error + query list" where
  "facetCallback instanceName inp intentFields facetQueries facetConfig =
     (let filterValue =
            (if rq_filter inp \<noteq> None \<and> truthy (requested inp (fct_key facetConfig))
             then requested inp (fct_key facetConfig) else JNull)
      in if truthy filterValue \<and> filterValue \<noteq> JStr ''__all__'' \<and> isObject filterValue then
           (let filterType = ownProp filterValue ''type'';
                unwrappedValue = unwrapValue filterValue;
                range = snd unwrappedValue
            in if \<not> truthy filterType \<or> filterType \<noteq> JStr ''facet'' then Inr facetQueries
               else if fct_type facetConfig = ''field'' \<or> fct_type facetConfig = ''min-max'' then
                 buildFieldQuery instanceName
                   ((plainField (fct_field facetConfig))
                      \<lparr>fc_filter := True, fc_termQuery := \<not> range, fc_rangeQuery := range,
                       fc_nestedPath := fct_nestedPath facetConfig,
                       fc_includeMissing := fct_includeMissing facetConfig\<rparr>)
                   (fst unwrappedValue) facetQueries intentFields
               else if fct_type facetConfig = ''filters'' then
                 Inr (pushIfAny facetQueries
                        (boolShouldQueries
                           (matchingFilters facetConfig (asArray (fst unwrappedValue)))))
               else if fct_type facetConfig = ''ranges'' then
                 Inr (pushIfAny facetQueries
                        (boolShouldQueries
                           (matchingRanges facetConfig (asArray (fst unwrappedValue)))))
               else Inr facetQueries)
         else Inr facetQueries)"

fun facetLoop ::
  "string \<Rightarrow> request \<Rightarrow> string list option \<Rightarrow> facetConfig list \<Rightarrow> query list \<Rightarrow>
   error + query list" where
  "facetLoop instanceName inp intentFields [] facetQueries = Inr facetQueries"
| "facetLoop instanceName inp intentFields (facetConfig # rest) facetQueries =
     (case facetCallback instanceName inp intentFields facetQueries facetConfig of
        Inl e \<Rightarrow> Inl e
      | Inr facetQueries' \<Rightarrow> facetLoop instanceName inp intentFields rest facetQueries')"

definition facetConfigsOf :: "searchTypeConfig \<Rightarrow> facetConfig list option" where
  "facetConfigsOf searchTypeConfig =
     (case st_facets searchTypeConfig of
        Some fs \<Rightarrow> Some fs
      | None \<Rightarrow> it_facets (st_indexType searchTypeConfig))"

definition facetQueries ::
  "string \<Rightarrow> searchTypeConfig \<Rightarrow> request \<Rightarrow> string list option \<Rightarrow> error + compiled" where
  "facetQueries instanceName searchTypeConfig inp intentFields =
     (case facetConfigsOf searchTypeConfig of
        None \<Rightarrow> Inr NoClause
      | Some facetConfigs \<Rightarrow>
          (case facetLoop instanceName inp intentFields facetConfigs [] of
             Inl e \<Rightarrow> Inl e
           | Inr qs \<Rightarrow> Inr (collapse qs)))"

subsection \<open>\<open>searchQuery\<close>\<close>

text \<open>
  The query envelope, as far as the request's filter reaches it: the index and type,
  the paging, the main query \<open>{bool: {must, filter}}\<close> (\<open>env_must = None\<close> stands for
  \<open>match_all\<close>) and the post-filter. The sort clause and the aggregations, which do
  not read the request's filter, are left out, and with them the rejection of a
  malformed facet configuration that building the aggregations can raise: whenever
  the source returns an envelope, this is its main query and post-filter.
\<close>

record envelope =
  env_index :: string
  env_type :: string
  env_from :: int
  env_size :: int
  env_must :: "query option"
  env_filter :: compiled
  env_post_filter :: compiled

definition searchQuery ::
  "string \<Rightarrow> searchTypeConfig \<Rightarrow> request \<Rightarrow> string list option \<Rightarrow> query option \<Rightarrow>
   string list option \<Rightarrow> error + envelope" where
  "searchQuery instanceName searchTypeConfig inp intentFields query termLanguages =
     (case filterQueries instanceName searchTypeConfig inp termLanguages intentFields of
        Inl e \<Rightarrow> Inl e
      | Inr filterClause \<Rightarrow>
          (case facetQueries instanceName searchTypeConfig inp intentFields of
             Inl e \<Rightarrow> Inl e
           | Inr postFilter \<Rightarrow>
               Inr \<lparr>env_index = it_index (st_indexType searchTypeConfig),
                    env_type = it_type (st_indexType searchTypeConfig),
                    env_from = in_page inp * in_count inp,
                    env_size = in_count inp,
                    env_must = query,
                    env_filter = filterClause,
                    env_post_filter = postFilter\<rparr>))"

text \<open>The request with the entry \<open>key\<close> of its filter set to \<open>v\<close>.\<close>

definition withFilter :: "request \<Rightarrow> string \<Rightarrow> jv \<Rightarrow> request" where
  "withFilter inp key v =
     inp\<lparr>rq_filter := Some (objSet (case rq_filter inp of None \<Rightarrow> [] | Some f \<Rightarrow> f) key v)\<rparr>"

definition facetSelection :: "jv \<Rightarrow> jv" where
  "facetSelection v = JObj [(''value'', v), (''type'', JStr ''facet'')]"

definition fuelType :: searchTypeConfig where
  "fuelType =
     \<lparr>st_queryFields = None,
      st_filters = Some [(''fuel'', (plainField ''fuel'')\<lparr>fc_termQuery := True\<rparr>),
                         (''city'', (plainField ''city'')\<lparr>fc_termQuery := True\<rparr>)],
      st_facets = Some [\<lparr>fct_key = ''fuel'', fct_type = ''field'', fct_field = ''fuel'',
                          fct_nestedPath = None, fct_includeMissing = False,
                          fct_filters = [], fct_ranges = []\<rparr>],
      st_indexType = \<lparr>it_type = ''car'', it_index = ''car_store'', it_queryFields = None,
                      it_filters = None, it_facets = None\<rparr>\<rparr>"

definition fuelRequest :: "jv \<Rightarrow> request" where
  "fuelRequest v =
     \<lparr>in_page = 0, in_count = 10, rq_text = None,
      rq_filter = Some [(''fuel'', v), (''city'', JStr ''pune'')],
      rq_lang = JUndefined, rq_fuzzySearch = False\<rparr>"

section \<open>Properties of the response processor\<close>

lemma cliffLoop_snoc:
  "prev = refScore results \<Longrightarrow>
   cliffLoop clean (hs @ [h]) prev results =
     (case cliffLoop clean hs prev results of
        Inl e \<Rightarrow> Inl e
      | Inr ks \<Rightarrow>
          (case processSource clean h of
             None \<Rightarrow> Inl TypeError
           | Some hitOut \<Rightarrow>
               Inr (if cliffKeep (refScore ks) (out_score hitOut) then ks @ [hitOut] else ks)))"
proof (induction hs arbitrary: prev results)
  case Nil
  then show ?case by (simp split: option.splits)
next
  case (Cons a hs)
  show ?case
  proof (cases "processSource clean a")
    case None
    then show ?thesis by simp
  next
    case (Some o1)
    show ?thesis
    proof (cases "cliffKeep prev (out_score o1)")
      case True
      have "out_rawScore o1 = refScore (results @ [o1])" by (simp add: refScore_def)
      from Cons.IH[OF this] True Some show ?thesis by simp
    next
      case False
      from Cons.IH[OF Cons.prems] False Some show ?thesis by simp
    qed
  qed
qed

lemma cliffLoop_extends:
  "cliffLoop clean hs prev results = Inr ks \<Longrightarrow> \<exists>rs. ks = results @ rs"
proof (induction hs arbitrary: prev results)
  case Nil
  then show ?case by simp
next
  case (Cons a hs)
  show ?case
  proof (cases "processSource clean a")
    case None
    with Cons.prems show ?thesis by simp
  next
    case (Some o1)
    show ?thesis
    proof (cases "cliffKeep prev (out_score o1)")
      case True
      with Cons.prems Some
      have "cliffLoop clean hs (out_rawScore o1) (results @ [o1]) = Inr ks"
        by simp
      from Cons.IH[OF this] show ?thesis by auto
    next
      case False
      with Cons.prems Some have "cliffLoop clean hs prev results = Inr ks" by simp
      from Cons.IH[OF this] show ?thesis .
    qed
  qed
qed

lemma cliffLoop_returns:
  "list_all (\<lambda>x. hit_source x \<noteq> None) hs \<Longrightarrow> \<exists>ks. cliffLoop clean hs prev results = Inr ks"
proof (induction hs arbitrary: prev results)
  case Nil
  then show ?case by simp
next
  case (Cons a hs)
  then obtain d where d: "hit_source a = Some d" by auto
  from Cons.prems have rest: "list_all (\<lambda>x. hit_source x \<noteq> None) hs" by simp
  show ?case using Cons.IH[OF rest] d
    by (simp add: processSource_def out_score_def)
qed

lemma cliffLoop_first_kept:
  assumes "cliffLoop clean (h # hs) None [] = Inr ks"
  shows "\<exists>hitOut rs. processSource clean h = Some hitOut \<and> ks = hitOut # rs"
proof (cases "processSource clean h")
  case None
  with assms show ?thesis by simp
next
  case (Some o1)
  with assms have "cliffLoop clean hs (out_rawScore o1) ([] @ [o1]) = Inr ks"
    by (simp add: cliffKeep_def)
  from cliffLoop_extends[OF this] Some show ?thesis by auto
qed

lemma cliffKeep_ratio: "p \<noteq> 0 \<Longrightarrow> cliffKeep (Some p) s = (2 / 5 < s / p)"
  by (simp add: cliffKeep_def js_div_def)

lemma keptHits_scoreResponse:
  "keptHits clean (scoreResponse scores tot took) = cliffLoop clean (map scoreHit scores) None []"
  by (simp add: keptHits_def scoreResponse_def)

lemma totalOf_scoreResponse: "totalOf (scoreResponse scores tot took) = tot"
  by (simp add: totalOf_def scoreResponse_def)

lemma took_scoreResponse: "resp_took (scoreResponse scores tot took) = took"
  by (simp add: scoreResponse_def)

lemma cliffKeep_null: "cliffKeep None s"
  by (simp add: cliffKeep_def)

text \<open>
  Claim C1, amended. The relevancy cliff filter of the response processor, on hits
  that carry a source document: the first hit is kept; while the score of the last
  kept hit is \<open>null\<close> (as the score of every hit of a sorted query is) each further
  hit is kept; otherwise a later hit is kept exactly when the ratio of its score to
  the score of the last hit kept before it is greater than 0.40 (for a reference
  score other than zero this is the ordinary quotient, a \<open>null\<close> score counting as
  0); a dropped hit leaves the kept list, and with it the reference score,
  unchanged. For the scores 100, 90, 30, 28 the kept scores are 100, 90.
\<close>

theorem relevancy_cliff_filter:
  assumes "list_all (\<lambda>x. hit_source x \<noteq> None) (hs @ [h])"
  shows "(\<exists>ks hitOut.
            cliffLoop clean hs None [] = Inr ks \<and>
            processSource clean h = Some hitOut \<and>
            (ks = [] \<longleftrightarrow> hs = []) \<and>
            cliffLoop clean (hs @ [h]) None [] =
              Inr (if hs = [] \<or> cliffKeep (out_rawScore (last ks)) (out_score hitOut)
                   then ks @ [hitOut] else ks) \<and>
            (out_rawScore (last ks) = None \<longrightarrow>
               cliffKeep (out_rawScore (last ks)) (out_score hitOut)) \<and>
            (\<forall>p. out_rawScore (last ks) = Some p \<and> p \<noteq> 0 \<longrightarrow>
               cliffKeep (out_rawScore (last ks)) (out_score hitOut) =
                 (2 / 5 < out_score hitOut / p))) \<and>
         map_sum id (map out_score \<circ> res_results)
           (processResponse id (scoreResponse [100, 90, 30, 28] tot took) type inp) =
           Inr [100, 90]"
proof -
  from assms have src: "list_all (\<lambda>x. hit_source x \<noteq> None) hs" and "hit_source h \<noteq> None"
    by simp_all
  then obtain d where "hit_source h = Some d" by auto
  then obtain hitOut where ho: "processSource clean h = Some hitOut"
    by (simp add: processSource_def)
  from cliffLoop_returns[OF src] obtain ks where ks: "cliffLoop clean hs None [] = Inr ks"
    by blast
  have empty: "ks = [] \<longleftrightarrow> hs = []"
  proof (cases hs)
    case Nil
    with ks show ?thesis by simp
  next
    case (Cons a as)
    with cliffLoop_first_kept ks show ?thesis by fastforce
  qed
  have "None = refScore ([] :: 'a hitOut list)" by (simp add: refScore_def)
  from cliffLoop_snoc[OF this, of clean hs h] ks ho
  have "cliffLoop clean (hs @ [h]) None [] =
          Inr (if cliffKeep (refScore ks) (out_score hitOut) then ks @ [hitOut] else ks)"
    by simp
  with empty have step: "cliffLoop clean (hs @ [h]) None [] =
      Inr (if hs = [] \<or> cliffKeep (out_rawScore (last ks)) (out_score hitOut)
           then ks @ [hitOut] else ks)"
    by (simp add: refScore_def cliffKeep_null)
  have null: "out_rawScore (last ks) = None \<longrightarrow>
               cliffKeep (out_rawScore (last ks)) (out_score hitOut)"
    by (simp add: cliffKeep_null)
  have ratio: "\<forall>p. out_rawScore (last ks) = Some p \<and> p \<noteq> 0 \<longrightarrow>
               cliffKeep (out_rawScore (last ks)) (out_score hitOut) =
                 (2 / 5 < out_score hitOut / p)"
    by (simp add: cliffKeep_ratio)
  have example: "map_sum id (map out_score \<circ> res_results)
           (processResponse id (scoreResponse [100, 90, 30, 28] tot took) type inp) =
           Inr [100, 90]"
    by (simp add: processResponse_def keptHits_scoreResponse scoreHit_def processSource_def
        out_score_def cliffKeep_def js_div_def Let_def)
  show ?thesis
  proof (intro conjI exI[of _ ks] exI[of _ hitOut])
  qed (fact ks ho empty step null ratio example)+
qed

theorem relevancy_cliff_filter_witness:
  "list_all (\<lambda>x. hit_source x \<noteq> None) (map scoreHit [100, 90] @ [scoreHit 30]) \<and>
   cliffLoop id (map scoreHit [100, 90] @ [scoreHit 30]) None [] =
     cliffLoop id (map scoreHit [100, 90]) None [] \<and>
   list_all (\<lambda>x. hit_source x \<noteq> None) ([unscoredHit] @ [unscoredHit]) \<and>
   cliffLoop id ([unscoredHit] @ [unscoredHit]) None [] = Inr [unscoredOut, unscoredOut]"
proof -
  have h: "list_all (\<lambda>x. hit_source x \<noteq> None) (map scoreHit [100, 90] @ [scoreHit 30])"
    by (simp add: scoreHit_def)
  have k: "cliffLoop id (map scoreHit [100, 90]) None [] =
             Inr (map (\<lambda>s. \<lparr>out_id = [], out_rawScore = Some s, out_type = [], out_weight = None,
                              out_doc = ()\<rparr>) [100, 90])"
    by (simp add: scoreHit_def processSource_def out_score_def cliffKeep_def js_div_def)
  from relevancy_cliff_filter[OF h, of id]
  have a: "cliffLoop id (map scoreHit [100, 90] @ [scoreHit 30]) None [] =
     cliffLoop id (map scoreHit [100, 90]) None []"
    by (simp add: k scoreHit_def processSource_def out_score_def cliffKeep_def js_div_def)
  have u: "list_all (\<lambda>x. hit_source x \<noteq> None) ([unscoredHit] @ [unscoredHit])"
    by (simp add: unscoredHit_def)
  have ku: "cliffLoop id [unscoredHit] None [] = Inr [unscoredOut]"
    by (simp add: unscoredHit_def unscoredOut_def processSource_def cliffKeep_def)
  have po: "processSource id unscoredHit = Some unscoredOut"
    by (simp add: unscoredHit_def unscoredOut_def processSource_def)
  from relevancy_cliff_filter[OF u, of id, THEN conjunct1]
  obtain ks where "\<exists>hitOut.
      cliffLoop id [unscoredHit] None [] = Inr ks \<and>
      processSource id unscoredHit = Some hitOut \<and>
      (ks = [] \<longleftrightarrow> [unscoredHit] = []) \<and>
      cliffLoop id ([unscoredHit] @ [unscoredHit]) None [] =
        Inr (if [unscoredHit] = [] \<or> cliffKeep (out_rawScore (last ks)) (out_score hitOut)
             then ks @ [hitOut] else ks) \<and>
      (out_rawScore (last ks) = None \<longrightarrow>
         cliffKeep (out_rawScore (last ks)) (out_score hitOut)) \<and>
      (\<forall>p. out_rawScore (last ks) = Some p \<and> p \<noteq> 0 \<longrightarrow>
         cliffKeep (out_rawScore (last ks)) (out_score hitOut) =
           (2 / 5 < out_score hitOut / p))" ..
  then obtain hitOut where c:
     "cliffLoop id [unscoredHit] None [] = Inr ks \<and>
      processSource id unscoredHit = Some hitOut \<and>
      (ks = [] \<longleftrightarrow> [unscoredHit] = []) \<and>
      cliffLoop id ([unscoredHit] @ [unscoredHit]) None [] =
        Inr (if [unscoredHit] = [] \<or> cliffKeep (out_rawScore (last ks)) (out_score hitOut)
             then ks @ [hitOut] else ks) \<and>
      (out_rawScore (last ks) = None \<longrightarrow>
         cliffKeep (out_rawScore (last ks)) (out_score hitOut)) \<and>
      (\<forall>p. out_rawScore (last ks) = Some p \<and> p \<noteq> 0 \<longrightarrow>
         cliffKeep (out_rawScore (last ks)) (out_score hitOut) =
           (2 / 5 < out_score hitOut / p))" ..
  note 1 = c[THEN conjunct1]
  note 2 = c[THEN conjunct2, THEN conjunct1]
  note 3 = c[THEN conjunct2, THEN conjunct2, THEN conjunct2, THEN conjunct1]
  note 4 = c[THEN conjunct2, THEN conjunct2, THEN conjunct2, THEN conjunct2, THEN conjunct1]
  from 1 ku have ks: "ks = [unscoredOut]" by simp
  from 2 po have ho: "hitOut = unscoredOut" by simp
  have "out_rawScore (last ks) = None" by (simp add: ks unscoredOut_def)
  with 4 have keep: "cliffKeep (out_rawScore (last ks)) (out_score hitOut)" by simp
  from 3 keep have b: "cliffLoop id ([unscoredHit] @ [unscoredHit]) None [] =
      Inr [unscoredOut, unscoredOut]"
    by (simp only: ks ho) simp
  from h a u b show ?thesis by blast
qed

theorem relevancy_cliff_filter_counterexample:
  "cliffLoop id [unscoredHit, unscoredHit, unscoredHit] None [] =
     Inr [unscoredOut, unscoredOut, unscoredOut] \<and>
   specCliff [unscoredOut, unscoredOut, unscoredOut] = [unscoredOut] \<and>
   \<not> js_gt (js_div (out_score unscoredOut) (out_score unscoredOut)) (2 / 5)"
  by (simp add: unscoredHit_def unscoredOut_def processSource_def out_score_def cliffKeep_def
      specCliff_def js_div_def)

lemma processResponse_returns:
  assumes "resp_hits response = Some hp" and "hits_hits hp = Some hs"
    and "list_all (\<lambda>x. hit_source x \<noteq> None) hs"
  shows "\<exists>r. processResponse clean response type inp = Inr r"
proof -
  from cliffLoop_returns[OF assms(3)] obtain ks where "cliffLoop clean hs None [] = Inr ks"
    by blast
  with assms(1,2) show ?thesis
    by (simp add: processResponse_def keptHits_def Let_def)
qed

text \<open>
  Claim C3. In every processed response the previous-page descriptor is present
  exactly when the requested page is greater than 0, and the next-page descriptor is
  present exactly when page * count plus the number of results returned is strictly
  less than \<open>totalResults\<close> (the backend's \<open>hits.total\<close>, 0 when absent).
\<close>

theorem pagination_links:
  assumes "processResponse clean response type inp = Inr r"
  shows "(res_prevPage r \<noteq> None \<longleftrightarrow> 0 < in_page inp) \<and>
         (res_nextPage r \<noteq> None \<longleftrightarrow>
            in_page inp * in_count inp + int (length (res_results r)) < res_totalResults r) \<and>
         res_totalResults r = totalOf response \<and>
         res_prevPage r = (if 0 < in_page inp then Some (in_page inp - 1) else None) \<and>
         res_nextPage r =
           (if in_page inp * in_count inp + int (length (res_results r)) < totalOf response
            then Some (in_page inp + 1) else None)"
proof (cases "keptHits clean response")
  case (Inl e)
  with assms show ?thesis by (simp add: processResponse_def)
next
  case (Inr ks)
  with assms have r: "r = \<lparr>res_type = type, res_results = ks,
       res_queryTimeTaken = resp_took response,
       res_totalResults = totalOf response, res_count = int (length ks),
       res_prevPage = (if 0 < in_page inp then Some (in_page inp - 1) else None),
       res_nextPage = (if in_count inp * in_page inp + int (length ks) < totalOf response
                       then Some (in_page inp + 1) else None)\<rparr>"
    by (simp add: processResponse_def Let_def)
  show ?thesis unfolding r by (simp add: mult.commute)
qed

theorem pagination_links_witness:
  "processResponse id (scoreResponse [100, 90, 30, 28] 14 7) (Some ''car'')
     \<lparr>in_page = 1, in_count = 10\<rparr> =
     Inr \<lparr>res_type = Some ''car'',
          res_results = map (\<lambda>s. \<lparr>out_id = [], out_rawScore = Some s, out_type = [],
                                    out_weight = None, out_doc = ()\<rparr>) [100, 90],
          res_queryTimeTaken = 7, res_totalResults = 14, res_count = 2,
          res_prevPage = Some 0, res_nextPage = Some 2\<rparr> \<and>
   (1 :: int) * 10 + 2 < 14"
proof -
  have p: "processResponse id (scoreResponse [100, 90, 30, 28] 14 7) (Some ''car'')
     \<lparr>in_page = 1, in_count = 10\<rparr> =
     Inr \<lparr>res_type = Some ''car'',
          res_results = map (\<lambda>s. \<lparr>out_id = [], out_rawScore = Some s, out_type = [],
                                    out_weight = None, out_doc = ()\<rparr>) [100, 90],
          res_queryTimeTaken = 7, res_totalResults = 14, res_count = 2,
          res_prevPage = Some 0, res_nextPage = Some 2\<rparr>"
    by (simp add: processResponse_def keptHits_scoreResponse scoreHit_def processSource_def out_score_def
        cliffKeep_def js_div_def Let_def totalOf_scoreResponse took_scoreResponse)
  have n: "(1 :: int) * 10 + 2 < 14"
    using pagination_links[OF p] by simp
  show ?thesis by (rule conjI[OF p n])
qed

section \<open>Properties of the multi-type merge\<close>

lemma mergeLoop_closed:
  assumes "list_all (\<lambda>x. \<not> isl x) (perType clean types inp rs i)"
  shows "mergeLoop clean types inp rs i m =
           Inr (fold (\<lambda>r m. mergeStep m r) (filter merged (rights (perType clean types inp rs i))) m)"
  using assms
proof (induction rs arbitrary: i m)
  case Nil
  then show ?case by simp
next
  case (Cons a rs)
  then obtain r where r: "processResponse clean a (typeAt types i) inp = Inr r"
    by (cases "processResponse clean a (typeAt types i) inp") auto
  from Cons.prems have "list_all (\<lambda>x. \<not> isl x) (perType clean types inp rs (Suc i))" by simp
  from Cons.IH[OF this] r show ?case by simp
qed

lemma fold_total:
  "list_all merged rs \<Longrightarrow>
   mr_totalResults (fold (\<lambda>r m. mergeStep m r) rs m) =
     mr_totalResults m + sum_list (map res_totalResults rs)"
  by (induction rs arbitrary: m) (auto simp: mergeStep_def merged_def split: option.splits)

lemma fold_count:
  "list_all merged rs \<Longrightarrow>
   mr_count (fold (\<lambda>r m. mergeStep m r) rs m) =
     mr_count m + sum_list (map (\<lambda>r. int (length (res_results r))) rs)"
  by (induction rs arbitrary: m) (auto simp: mergeStep_def merged_def split: option.splits)

lemma fold_qtt:
  "list_all merged rs \<Longrightarrow>
   mr_queryTimeTaken (fold (\<lambda>r m. mergeStep m r) rs m) =
     (if rs = [] then mr_queryTimeTaken m
      else Some (fold max (map res_queryTimeTaken rs) (orZero (mr_queryTimeTaken m))))"
proof (induction rs arbitrary: m)
  case Nil
  then show ?case by simp
next
  case (Cons a rs)
  then obtain t where t: "res_type a = Some t" by (auto simp: merged_def split: option.splits)
  from Cons.prems have "list_all merged rs" by simp
  from Cons.IH[OF this, of "mergeStep m a"] t show ?case
    by (cases "rs = []") (simp_all add: mergeStep_def orZero_def max.commute)
qed

lemma map_of_objSet: "map_of (objSet kvs k v) = (map_of kvs)(k \<mapsto> v)"
  by (induction kvs k v rule: objSet.induct) auto

lemma fold_results:
  "list_all merged rs \<Longrightarrow>
   map_of (mr_results (fold (\<lambda>r m. mergeStep m r) rs m)) =
     map_of (mr_results m) ++ map_of (rev (map (\<lambda>r. (typeName r, r)) rs))"
proof (induction rs arbitrary: m)
  case Nil
  then show ?case by simp
next
  case (Cons a rs)
  then obtain t where t: "res_type a = Some t" by (auto simp: merged_def split: option.splits)
  from Cons.prems have "list_all merged rs" by simp
  from Cons.IH[OF this, of "mergeStep m a"]
  have "map_of (mr_results (fold (\<lambda>r m. mergeStep m r) (a # rs) m)) =
          map_of (mr_results (mergeStep m a)) ++ map_of (rev (map (\<lambda>r. (typeName r, r)) rs))"
    by simp
  also have "mr_results (mergeStep m a) = objSet (mr_results m) t a"
    by (simp add: mergeStep_def t)
  also have "map_of (objSet (mr_results m) t a) ++ map_of (rev (map (\<lambda>r. (typeName r, r)) rs)) =
          map_of (mr_results m) ++ ([t \<mapsto> a] ++ map_of (rev (map (\<lambda>r. (typeName r, r)) rs)))"
    by (auto simp: map_of_objSet fun_eq_iff map_add_def split: option.splits)
  also have "[t \<mapsto> a] ++ map_of (rev (map (\<lambda>r. (typeName r, r)) rs)) =
          map_of (rev (map (\<lambda>r. (typeName r, r)) (a # rs)))"
    by (simp add: typeName_def t)
  finally show ?case .
qed

lemma processResponse_type:
  "processResponse clean response type inp = Inr r \<Longrightarrow> res_type r = type"
  by (auto simp: processResponse_def Let_def split: sum.splits)

lemma perType_types:
  "list_all (\<lambda>x. \<not> isl x) (perType clean types inp rs i) \<Longrightarrow>
   map res_type (rights (perType clean types inp rs i)) = map (typeAt types) [i..<i + length rs]"
proof (induction rs arbitrary: i)
  case Nil
  then show ?case by simp
next
  case (Cons a rs)
  then obtain r where r: "processResponse clean a (typeAt types i) inp = Inr r"
    by (cases "processResponse clean a (typeAt types i) inp") auto
  from Cons.prems have "list_all (\<lambda>x. \<not> isl x) (perType clean types inp rs (Suc i))" by simp
  from Cons.IH[OF this]
  have ih: "map res_type (rights (perType clean types inp rs (Suc i))) =
              map (typeAt types) [Suc i..<Suc i + length rs]" .
  have u: "[i..<i + length (a # rs)] = i # [Suc i..<Suc i + length rs]"
    by (simp add: upt_conv_Cons del: upt_Suc)
  have "map res_type (rights (perType clean types inp (a # rs) i)) =
          res_type r # map res_type (rights (perType clean types inp rs (Suc i)))"
    using r by simp
  also have "\<dots> = typeAt types i # map (typeAt types) [Suc i..<Suc i + length rs]"
    unfolding ih using processResponse_type[OF r] by simp
  also have "\<dots> = map (typeAt types) [i..<i + length (a # rs)]"
    unfolding u by simp
  finally show ?case .
qed

text \<open>
  Claim C7, amended. When every per-type response is processed without error, the
  multi-type merge returns a merged result. Response \<open>i\<close> is processed with the \<open>i\<close>-th
  submitted type. Only per-type results with a non-empty type and at least one kept
  hit are merged. Over those, \<open>totalResults\<close> and \<open>count\<close> are the sums of the
  per-type \<open>totalResults\<close> and result counts, \<open>queryTimeTaken\<close> is the maximum of 0 and
  the per-type values (absent when nothing is merged), and \<open>results\<close> holds under each
  type the last merged result of that type.
\<close>

theorem multi_type_merge:
  assumes "list_all (\<lambda>x. \<not> isl x) (perType clean types inp rs 0)"
  shows "\<exists>m. processMultipleSearchResponse clean (Some rs) types inp = Inr (Some m) \<and>
           map res_type (rights (perType clean types inp rs 0)) =
             map (typeAt types) [0..<length rs] \<and>
           (let ms = filter merged (rights (perType clean types inp rs 0)) in
              mr_totalResults m = sum_list (map res_totalResults ms) \<and>
              mr_count m = sum_list (map (\<lambda>r. int (length (res_results r))) ms) \<and>
              mr_queryTimeTaken m =
                (if ms = [] then None else Some (Max (set (0 # map res_queryTimeTaken ms)))) \<and>
              map_of (mr_results m) = map_of (rev (map (\<lambda>r. (typeName r, r)) ms)))"
proof -
  define ms where "ms = filter merged (rights (perType clean types inp rs 0))"
  define m0 :: "'a mergedResult" where "m0 = emptyMerged"
  define m1 where "m1 = fold (\<lambda>r m. mergeStep m r) ms m0"
  define m where "m = m1\<lparr>mr_prevPage := (if 0 < in_page inp then Some (in_page inp - 1) else None),
                         mr_nextPage := (if in_count inp * in_page inp + mr_count m1 < mr_totalResults m1
                                         then Some (in_page inp + 1) else None)\<rparr>"
  have all: "list_all merged ms" by (simp add: ms_def list_all_iff)
  have loop: "mergeLoop clean types inp rs 0 m0 = Inr m1"
    unfolding m1_def ms_def by (rule mergeLoop_closed[OF assms])
  have ret: "processMultipleSearchResponse clean (Some rs) types inp = Inr (Some m)"
    using loop by (simp add: processMultipleSearchResponse_def m_def m0_def emptyMerged_def)
  have tot: "mr_totalResults m = sum_list (map res_totalResults ms)"
    using fold_total[OF all, of m0] by (simp add: m_def m1_def m0_def emptyMerged_def)
  have cnt: "mr_count m = sum_list (map (\<lambda>r. int (length (res_results r))) ms)"
    using fold_count[OF all, of m0] by (simp add: m_def m1_def m0_def emptyMerged_def)
  have qtt: "mr_queryTimeTaken m =
      (if ms = [] then None else Some (Max (set (0 # map res_queryTimeTaken ms))))"
  proof -
    have "Max (set (0 # map res_queryTimeTaken ms)) = fold max (map res_queryTimeTaken ms) 0"
      by (rule Max.set_eq_fold)
    then show ?thesis
      using fold_qtt[OF all, of m0]
      by (simp only: m_def m1_def m0_def emptyMerged_def orZero_def) simp
  qed
  have res: "map_of (mr_results m) = map_of (rev (map (\<lambda>r. (typeName r, r)) ms))"
    using fold_results[OF all, of m0] by (simp add: m_def m1_def m0_def emptyMerged_def)
  have pos: "map res_type (rights (perType clean types inp rs 0)) =
             map (typeAt types) [0..<length rs]"
    using perType_types[OF assms] by simp
  from ret pos tot cnt qtt res show ?thesis
    unfolding Let_def ms_def[symmetric] by blast
qed

lemma processResponse_scoreResponse:
  "processResponse clean (scoreResponse scores tot took) type inp =
     (case cliffLoop clean (map scoreHit scores) None [] of
        Inl e \<Rightarrow> Inl e
      | Inr results \<Rightarrow>
          Inr \<lparr>res_type = type, res_results = results, res_queryTimeTaken = took,
               res_totalResults = tot, res_count = int (length results),
               res_prevPage = (if 0 < in_page inp then Some (in_page inp - 1) else None),
               res_nextPage = (if in_count inp * in_page inp + int (length results) < tot
                               then Some (in_page inp + 1) else None)\<rparr>)"
  by (simp add: processResponse_def keptHits_scoreResponse totalOf_scoreResponse
      took_scoreResponse Let_def split: sum.splits)

lemma perType_example:
  "perType id (Some [Some ''a'', Some ''b'']) \<lparr>in_page = 1, in_count = 10\<rparr>
     [scoreResponse [] 5 9, scoreResponse [3, 2] 12 2] 0 =
   [Inr \<lparr>res_type = Some ''a'', res_results = [], res_queryTimeTaken = 9,
         res_totalResults = 5, res_count = 0, res_prevPage = Some 0, res_nextPage = None\<rparr>,
    Inr \<lparr>res_type = Some ''b'',
         res_results = [\<lparr>out_id = [], out_rawScore = Some 3, out_type = [], out_weight = None,
                         out_doc = ()\<rparr>,
                        \<lparr>out_id = [], out_rawScore = Some 2, out_type = [], out_weight = None,
                         out_doc = ()\<rparr>],
         res_queryTimeTaken = 2, res_totalResults = 12, res_count = 2,
         res_prevPage = Some 0, res_nextPage = None\<rparr>]"
  by (simp add: processResponse_scoreResponse typeAt_def scoreHit_def processSource_def out_score_def
      cliffKeep_def js_div_def)

theorem multi_type_merge_witness:
  "list_all (\<lambda>x. \<not> isl x)
     (perType id (Some [Some ''a'', Some ''b'']) \<lparr>in_page = 1, in_count = 10\<rparr>
        [scoreResponse [] 5 9, scoreResponse [3, 2] 12 2] 0) \<and>
   codeTotalResults
     (processMultipleSearchResponse id (Some [scoreResponse [] 5 9, scoreResponse [3, 2] 12 2])
        (Some [Some ''a'', Some ''b'']) \<lparr>in_page = 1, in_count = 10\<rparr>) = Some 12"
proof -
  have h: "list_all (\<lambda>x. \<not> isl x)
     (perType id (Some [Some ''a'', Some ''b'']) \<lparr>in_page = 1, in_count = 10\<rparr>
        [scoreResponse [] 5 9, scoreResponse [3, 2] 12 2] 0)"
    by (subst perType_example) simp
  from multi_type_merge[OF h]
  have "codeTotalResults
     (processMultipleSearchResponse id (Some [scoreResponse [] 5 9, scoreResponse [3, 2] 12 2])
        (Some [Some ''a'', Some ''b'']) \<lparr>in_page = 1, in_count = 10\<rparr>) = Some 12"
    unfolding perType_example by (auto simp: merged_def codeTotalResults_def Let_def)
  with h show ?thesis by (rule conjI)
qed

theorem multi_type_merge_counterexample:
  "codeTotalResults
     (processMultipleSearchResponse id (Some [scoreResponse [] 5 9, scoreResponse [3, 2] 12 2])
        (Some [Some ''a'', Some ''b'']) \<lparr>in_page = 1, in_count = 10\<rparr>) = Some 12 \<and>
   specTotalResults
     (rights (perType id (Some [Some ''a'', Some ''b'']) \<lparr>in_page = 1, in_count = 10\<rparr>
        [scoreResponse [] 5 9, scoreResponse [3, 2] 12 2] 0)) = 17 \<and>
   codeQueryTimeTaken
     (processMultipleSearchResponse id (Some [scoreResponse [] 5 9, scoreResponse [3, 2] 12 2])
        (Some [Some ''a'', Some ''b'']) \<lparr>in_page = 1, in_count = 10\<rparr>) = Some 2 \<and>
   specQueryTimeTaken
     (rights (perType id (Some [Some ''a'', Some ''b'']) \<lparr>in_page = 1, in_count = 10\<rparr>
        [scoreResponse [] 5 9, scoreResponse [3, 2] 12 2] 0)) = 9"
  unfolding perType_example
  by (simp add: specTotalResults_def specQueryTimeTaken_def
      processMultipleSearchResponse_def processResponse_scoreResponse typeAt_def scoreHit_def
      processSource_def out_score_def cliffKeep_def merged_def mergeStep_def orZero_def
      codeTotalResults_def codeQueryTimeTaken_def)

section \<open>Properties of section composition and of the intent cascade\<close>

lemma composeLoop_closed:
  "composeLoop sections t rs =
     (t + sum_list (map totalOrZero (nonNull sections)), rs @ nonNull sections)"
  by (induction sections t rs rule: composeLoop.induct) (simp_all add: totalOrZero_def)

text \<open>
  Claim C10. \<open>composeSections\<close> returns the non-null sections that have at least one
  result, in order, while its \<open>totalResults\<close> is the sum of \<open>totalResults\<close> (0 when
  absent) over all non-null sections, the removed ones included; so for some inputs
  the returned \<open>totalResults\<close> is strictly greater than the sum over the sections
  returned.
\<close>

theorem composeSections_total_counts_removed:
  "comp_results (composeSections sections) = filter hasResults (nonNull sections) \<and>
   comp_totalResults (composeSections sections) =
     sum_list (map totalOrZero (nonNull sections)) \<and>
   sum_list (map totalOrZero (comp_results (composeSections
       [Some \<lparr>sec_name = ''news'', sec_results = Some [], sec_totalResults = Some 4\<rparr>,
        Some \<lparr>sec_name = ''used-cars'', sec_results = Some [u], sec_totalResults = Some 3\<rparr>])))
     < comp_totalResults (composeSections
       [Some \<lparr>sec_name = ''news'', sec_results = Some [], sec_totalResults = Some 4\<rparr>,
        Some \<lparr>sec_name = ''used-cars'', sec_results = Some [u], sec_totalResults = Some 3\<rparr>])"
  by (simp add: composeSections_def composeLoop_closed hasResults_def totalOrZero_def)

text \<open>
  Claim C6, amended. The classification is a total function of the three probe hit
  counts. The probes are inspected brand first, then model, then variant: the first
  probe with a non-zero count decides, giving the "single" state of its level for a
  count of exactly 1 and the "multi" state otherwise; when all three counts are zero
  the generic fallback composition is produced.
\<close>

theorem intent_cascade_classification:
  "classify brandHits modelHits variantHits =
     (if brandHits \<noteq> 0 then (if brandHits = 1 then BrandSingle else BrandMulti)
      else if modelHits \<noteq> 0 then (if modelHits = 1 then ModelSingle else ModelMulti)
      else if variantHits \<noteq> 0 then (if variantHits = 1 then VariantSingle else VariantMulti)
      else Fallback)"
  by (simp add: classify_def searchType_def dispatch_def)

theorem intent_cascade_classification_witness:
  "classify 2 0 1 = BrandMulti \<and> classify 0 1 5 = ModelSingle \<and> classify 0 0 0 = Fallback"
  using intent_cascade_classification[of 2 0 1] intent_cascade_classification[of 0 1 5]
    intent_cascade_classification[of 0 0 0]
  by simp

theorem intent_cascade_counterexample:
  "classify 2 0 1 = BrandMulti \<and> specClassify 2 0 1 = VariantSingle"
  by (simp add: classify_def searchType_def dispatch_def specClassify_def)

section \<open>Properties of the relevancy-deflection ranker\<close>

lemma deflectionLoop_none:
  "(\<forall>i. Suc i < length (p # xs) \<longrightarrow> \<not> dropAt (p # xs) i) \<Longrightarrow> deflectionLoop xs p = 0"
proof (induction xs arbitrary: p)
  case Nil
  then show ?case by simp
next
  case (Cons x xs)
  from Cons.prems have "\<not> dropAt (p # x # xs) 0" by auto
  then have nd: "\<not> (p \<noteq> 0 \<and> x < (1 / 2) * p)" by (simp add: dropAt_def)
  have "\<forall>i. Suc i < length (x # xs) \<longrightarrow> \<not> dropAt (x # xs) i"
  proof (intro allI impI)
    fix i assume "Suc i < length (x # xs)"
    then have "Suc (Suc i) < length (p # x # xs)" by simp
    with Cons.prems have "\<not> dropAt (p # x # xs) (Suc i)" by blast
    then show "\<not> dropAt (x # xs) i" by (simp add: dropAt_def)
  qed
  from Cons.IH[OF this] nd show ?case by auto
qed

lemma deflectionLoop_first:
  "Suc i < length (p # xs) \<Longrightarrow> dropAt (p # xs) i \<Longrightarrow> (\<forall>j<i. \<not> dropAt (p # xs) j) \<Longrightarrow>
   deflectionLoop xs p = (p # xs) ! i"
proof (induction xs arbitrary: p i)
  case Nil
  then show ?case by simp
next
  case (Cons x xs)
  show ?case
  proof (cases i)
    case 0
    with Cons.prems(2) show ?thesis by (simp add: dropAt_def)
  next
    case (Suc k)
    with Cons.prems(3) have "\<not> dropAt (p # x # xs) 0" by blast
    then have nd: "\<not> (p \<noteq> 0 \<and> x < (1 / 2) * p)" by (simp add: dropAt_def)
    from Cons.prems(1) Suc have a: "Suc k < length (x # xs)" by simp
    from Cons.prems(2) Suc have b: "dropAt (x # xs) k" by (simp add: dropAt_def)
    have c: "\<forall>j<k. \<not> dropAt (x # xs) j"
    proof (intro allI impI)
      fix j assume "j < k"
      then have "Suc j < i" using Suc by simp
      with Cons.prems(3) have "\<not> dropAt (p # x # xs) (Suc j)" by blast
      then show "\<not> dropAt (x # xs) j" by (simp add: dropAt_def)
    qed
    from Cons.IH[OF a b c] nd Suc show ?thesis by auto
  qed
qed

lemma deflectionLoop_start:
  "deflectionLoop xs 0 = (case xs of [] \<Rightarrow> 0 | x # ys \<Rightarrow> deflectionLoop ys x)"
  by (cases xs) simp_all

lemma deflection_none:
  "(\<forall>i. Suc i < length xs \<longrightarrow> \<not> dropAt xs i) \<Longrightarrow> deflectionLoop xs 0 = 0"
  by (cases xs) (simp_all add: deflectionLoop_none del: deflectionLoop.simps(2) add: deflectionLoop_start)

lemma deflection_first:
  assumes "Suc i < length xs" and "dropAt xs i" and "\<forall>j<i. \<not> dropAt xs j"
  shows "deflectionLoop xs 0 = xs ! i"
proof (cases xs)
  case Nil
  with assms(1) show ?thesis by simp
next
  case (Cons x ys)
  with assms deflectionLoop_first[of i x ys] show ?thesis
    by (simp add: deflectionLoop_start del: deflectionLoop.simps(2))
qed

lemma sortDescBy_sorted: "sorted_wrt (\<lambda>a b. key b \<le> key a) (sortDescBy key xs)"
proof -
  have "sorted (map (\<lambda>x. - key x) (sort_key (\<lambda>x. - key x) xs))" by (rule sorted_sort_key)
  then show ?thesis
    by (simp add: sortDescBy_def sorted_wrt_map)
qed

lemma sortDescBy_mset: "mset (sortDescBy key xs) = mset xs"
  by (simp add: sortDescBy_def)

lemma groupHits_scoredGroup: "groupHits [scoredGroup t scores] = map scoredOut scores"
  by (simp add: groupHits_def scoredGroup_def)

text \<open>
  Claim C2, amended. For a multi response the ranker takes the hits of all groups;
  the relevancy score of a hit is its raw score divided by its weight, a weight that
  is absent or 0 counting as 1. The relevancy scores are sorted descending and
  scanned: at the first position whose score is non-zero and whose successor is
  strictly less than 50% of it, that score becomes the threshold; with no such
  position the threshold is 0. The returned hits are exactly the hits whose relevancy
  score is at least the threshold, ordered by raw score descending. A response that
  is not multi is returned unchanged. For the relevancy scores 10, 4, 3 only the
  hit of score 10 is kept.
\<close>

theorem deflection_ranker:
  "(case suggestedQueries (MultiResponse m) of
      RankedResponse m' hits \<Rightarrow> m' = m \<and> hits = rankedResults (mr_results m)
    | UnchangedResponse r \<Rightarrow> False) \<and>
   suggestedQueries (SingleResponse r) = UnchangedResponse r \<and>
   (out_weight h = None \<or> out_weight h = Some 0 \<longrightarrow> relevancyScore h = out_score h) \<and>
   (out_weight h = Some w \<and> w \<noteq> 0 \<longrightarrow> relevancyScore h = out_score h / w) \<and>
   (let hits = groupHits groups;
        scores = sortDescBy id (map relevancyScore hits);
        threshold = deflectionScore hits
    in sorted_wrt (\<lambda>a b. b \<le> a) scores \<and>
       mset scores = mset (map relevancyScore hits) \<and>
       ((\<forall>i. Suc i < length scores \<longrightarrow> \<not> dropAt scores i) \<longrightarrow> threshold = 0) \<and>
       (\<forall>i. Suc i < length scores \<and> dropAt scores i \<and> (\<forall>j<i. \<not> dropAt scores j) \<longrightarrow>
            threshold = scores ! i) \<and>
       mset (rankedResults groups) = mset (filter (\<lambda>h. threshold \<le> relevancyScore h) hits) \<and>
       sorted_wrt (\<lambda>a b. out_score b \<le> out_score a) (rankedResults groups)) \<and>
   map out_score (rankedResults [scoredGroup ''a'' [10, 3], scoredGroup ''b'' [4]]) = [10]"
proof -
  have ex: "map out_score (rankedResults [scoredGroup ''a'' [10, 3], scoredGroup ''b'' [4]]) = [10]"
    by (simp add: rankedResults_def groupHits_def scoredGroup_def scoredOut_def out_score_def
        deflectionScore_def relevancyScore_def sortDescBy_def)
  have srt: "sorted_wrt (\<lambda>a b. b \<le> a) (sortDescBy id (map relevancyScore (groupHits groups)))"
    using sortDescBy_sorted[of id] by simp
  have none: "(\<forall>i. Suc i < length (sortDescBy id (map relevancyScore (groupHits groups))) \<longrightarrow>
                  \<not> dropAt (sortDescBy id (map relevancyScore (groupHits groups))) i) \<longrightarrow>
              deflectionScore (groupHits groups) = 0"
    unfolding deflectionScore_def using deflection_none by blast
  have first: "\<forall>i. Suc i < length (sortDescBy id (map relevancyScore (groupHits groups))) \<and>
                  dropAt (sortDescBy id (map relevancyScore (groupHits groups))) i \<and>
                  (\<forall>j<i. \<not> dropAt (sortDescBy id (map relevancyScore (groupHits groups))) j) \<longrightarrow>
              deflectionScore (groupHits groups) =
                sortDescBy id (map relevancyScore (groupHits groups)) ! i"
    unfolding deflectionScore_def using deflection_first by blast
  have ms: "mset (rankedResults groups) =
      mset (filter (\<lambda>h. deflectionScore (groupHits groups) \<le> relevancyScore h) (groupHits groups))"
    by (simp add: rankedResults_def sortDescBy_mset)
  have rs: "sorted_wrt (\<lambda>a b. out_score b \<le> out_score a) (rankedResults groups)"
    unfolding rankedResults_def by (rule sortDescBy_sorted)
  have w: "(out_weight h = None \<or> out_weight h = Some 0 \<longrightarrow> relevancyScore h = out_score h) \<and>
           (out_weight h = Some w \<and> w \<noteq> 0 \<longrightarrow> relevancyScore h = out_score h / w)"
    by (auto simp: relevancyScore_def)
  have sq: "(case suggestedQueries (MultiResponse m) of
      RankedResponse m' hits \<Rightarrow> m' = m \<and> hits = rankedResults (mr_results m)
    | UnchangedResponse r \<Rightarrow> False) \<and>
   suggestedQueries (SingleResponse r) = UnchangedResponse r"
    by (simp add: suggestedQueries_def)
  from sq w srt none first ms rs ex show ?thesis
    unfolding Let_def by (simp only: sortDescBy_mset) simp
qed

theorem deflection_ranker_counterexample:
  "map out_score (rankedResults [scoredGroup ''a'' [10, 5]]) = [10, 5] \<and>
   map out_score (specRankedResults [scoredGroup ''a'' [10, 5]]) = [10] \<and>
   deflectionScore (groupHits [scoredGroup ''a'' [10, 5]]) = 0 \<and>
   specDeflectionScore (groupHits [scoredGroup ''a'' [10, 5]]) = 10"
  by (simp add: rankedResults_def specRankedResults_def groupHits_scoredGroup scoredOut_def out_score_def
      deflectionScore_def specDeflectionScore_def relevancyScore_def sortDescBy_def)

lemma scores_example_drop:
  "sortDescBy id (map relevancyScore (groupHits [scoredGroup ''a'' [10, 3], scoredGroup ''b'' [4]])) =
     [10, 4, 3]"
  by (simp add: groupHits_def scoredGroup_def scoredOut_def out_score_def relevancyScore_def sortDescBy_def)

lemma scores_example_flat:
  "sortDescBy id (map relevancyScore (groupHits [scoredGroup ''a'' [10, 5]])) = [10, 5]"
  by (simp add: groupHits_def scoredGroup_def scoredOut_def out_score_def relevancyScore_def sortDescBy_def)

theorem deflection_ranker_witness:
  "dropAt [10, 4, 3] 0 \<and>
   deflectionScore (groupHits [scoredGroup ''a'' [10, 3], scoredGroup ''b'' [4]]) = 10 \<and>
   \<not> dropAt [10, 5] 0 \<and>
   deflectionScore (groupHits [scoredGroup ''a'' [10, 5]]) = 0 \<and>
   relevancyScore (scoredOut 10) = 10 \<and>
   relevancyScore ((scoredOut 10)\<lparr>out_weight := Some 2\<rparr>) = 5"
proof -
  have d: "dropAt [10, 4, 3] 0" by (simp add: dropAt_def)
  have n: "\<not> dropAt [10, 5] 0" by (simp add: dropAt_def)
  have n': "\<forall>i. Suc i < length [10, 5 :: rat] \<longrightarrow> \<not> dropAt [10, 5] i"
    using n by simp
  note none_abs = deflection_ranker[THEN conjunct2, THEN conjunct2, THEN conjunct1]
  note some_w = deflection_ranker[THEN conjunct2, THEN conjunct2, THEN conjunct2, THEN conjunct1]
  note scan = deflection_ranker[THEN conjunct2, THEN conjunct2, THEN conjunct2, THEN conjunct2,
      THEN conjunct1, unfolded Let_def]
  have a: "deflectionScore (groupHits [scoredGroup ''a'' [10, 3], scoredGroup ''b'' [4]]) = 10"
    using scan[of "[scoredGroup ''a'' [10, 3], scoredGroup ''b'' [4]]"] d
    unfolding scores_example_drop
    by force
  have b: "deflectionScore (groupHits [scoredGroup ''a'' [10, 5]]) = 0"
    using scan[of "[scoredGroup ''a'' [10, 5]]"] n'
    unfolding scores_example_flat
    by blast
  have c: "relevancyScore (scoredOut 10) = 10"
    using none_abs[of "scoredOut 10"]
    by (simp add: scoredOut_def out_score_def)
  have e: "relevancyScore ((scoredOut 10)\<lparr>out_weight := Some 2\<rparr>) = 5"
    using some_w[of "(scoredOut 10)\<lparr>out_weight := Some 2\<rparr>" 2]
    by (simp add: scoredOut_def out_score_def)
  from d a n b c e show ?thesis by blast
qed

section \<open>Properties of the error boundary\<close>

text \<open>
  Claim C9, amended. At the caller boundary a result passes through; a validation
  error, whether thrown by the operation or delivered as the rejection of its
  promise, reaches the caller unchanged; a rejection that already is an internal
  service error also reaches the caller unchanged; every other rejection is replaced
  by a new internal service error whose details are the cause of the original error
  when it has one and the original error itself otherwise, and whose stack is the
  original stack.
\<close>

theorem error_boundary:
  "boundary (Returns (Resolved v)) = Returns (Resolved v) \<and>
   (isValidationError e \<longrightarrow>
      boundary (Throws e) = Throws e \<and>
      boundary (Returns (Rejected (Some e))) = Returns (Rejected (Some e))) \<and>
   (isInternalServiceError e \<longrightarrow>
      boundary (Returns (Rejected (Some e))) = Returns (Rejected (Some e))) \<and>
   (\<not> isValidationError e \<and> \<not> isInternalServiceError e \<longrightarrow>
      boundary (Returns (Rejected (Some e))) =
        Returns (Rejected (Some (newInternalServiceError ''Internal Service Error''
          (case cause e of Some c \<Rightarrow> Some c | None \<Rightarrow> Some e) (stack e)))) \<and>
      isInternalServiceError (newInternalServiceError ''Internal Service Error''
          (case cause e of Some c \<Rightarrow> Some c | None \<Rightarrow> Some e) (stack e)))"
  by (simp add: boundary_def errorWrap_def isValidationError_def isInternalServiceError_def
      newInternalServiceError_def)

theorem error_boundary_witness:
  "isValidationError validationFailure \<and>
   boundary (Throws validationFailure) = (Throws validationFailure :: unit called) \<and>
   isInternalServiceError serviceFailure \<and>
   boundary (Returns (Rejected (Some serviceFailure))) =
     (Returns (Rejected (Some serviceFailure)) :: unit called) \<and>
   \<not> isValidationError timeoutFailure \<and> \<not> isInternalServiceError timeoutFailure \<and>
   boundary (Returns (Rejected (Some timeoutFailure))) =
     (Returns (Rejected (Some (JsError (Some ''INTERNAL_SERVICE_ERROR'')
        ''Internal Service Error'' None (Some timeoutFailure) (Some ''at ESClient'')))) :: unit called)"
proof -
  have v: "isValidationError validationFailure"
    by (simp add: isValidationError_def validationFailure_def)
  have s: "isInternalServiceError serviceFailure"
    by (simp add: isInternalServiceError_def serviceFailure_def)
  have t: "\<not> isValidationError timeoutFailure \<and> \<not> isInternalServiceError timeoutFailure"
    by (simp add: isValidationError_def isInternalServiceError_def timeoutFailure_def)
  note vthm = error_boundary[THEN conjunct2, THEN conjunct1, rule_format]
  note sthm = error_boundary[THEN conjunct2, THEN conjunct2, THEN conjunct1, rule_format]
  note tthm = error_boundary[THEN conjunct2, THEN conjunct2, THEN conjunct2, rule_format]
  have a: "boundary (Throws validationFailure) = (Throws validationFailure :: unit called)"
    by (rule vthm[OF v, THEN conjunct1])
  have b: "boundary (Returns (Rejected (Some serviceFailure))) =
     (Returns (Rejected (Some serviceFailure)) :: unit called)"
    by (rule sthm[OF s])
  have c: "boundary (Returns (Rejected (Some timeoutFailure))) =
     (Returns (Rejected (Some (JsError (Some ''INTERNAL_SERVICE_ERROR'')
        ''Internal Service Error'' None (Some timeoutFailure) (Some ''at ESClient'')))) :: unit called)"
    unfolding tthm[OF t, THEN conjunct1]
    by (simp add: newInternalServiceError_def timeoutFailure_def)
  from v a s b t c show ?thesis by blast
qed

theorem error_boundary_counterexample:
  "\<not> isValidationError serviceFailure \<and>
   boundary (Returns (Rejected (Some serviceFailure))) =
     (Returns (Rejected (Some serviceFailure)) :: unit called) \<and>
   serviceFailure \<noteq> specWrap serviceFailure \<and>
   details (specWrap serviceFailure) = Some serviceFailure \<and>
   details serviceFailure = None"
  by (simp add: boundary_def errorWrap_def isValidationError_def serviceFailure_def
      specWrap_def newInternalServiceError_def)

lemma boundary_synchronous_throw:
  "boundary (Throws timeoutFailure) = (Throws timeoutFailure :: unit called) \<and>
   \<not> isValidationError timeoutFailure \<and> \<not> isInternalServiceError timeoutFailure"
  by (simp add: boundary_def isValidationError_def isInternalServiceError_def timeoutFailure_def)

section \<open>Properties of the query compiler\<close>

lemma wrapQuery_filter:
  "fc_filter cfg \<Longrightarrow>
   wrapQuery cfg q =
     (case fc_nestedPath cfg of None \<Rightarrow> q | Some path \<Rightarrow> if path = [] then q else Nested path q)"
  by (simp add: wrapQuery_def constantScoreQuery_def)

text \<open>
  Claim C8, amended. Let a filter be evaluated with \<open>includeMissing\<close> set. As a
  term-equality filter with a value other than the sentinel \<open>__not_empty__\<close>, its
  clause is the disjunction of the value-match clause and the field-absent clause;
  with the sentinel it is the field-exists clause alone. As a range filter whose
  value yields at least one range clause, its clause is the disjunction of the range
  clause and the field-absent clause. As a free-text filter its clause is the text
  clause alone: no field-absent alternative is added.
\<close>

theorem include_missing_clause:
  assumes "fc_filter cfg" and "fc_includeMissing cfg"
  shows "(fc_termQuery cfg \<and> \<not> fc_rangeQuery cfg \<and> v \<noteq> JStr ''__not_empty__'' \<longrightarrow>
            fieldQuery inst cfg v ifs =
              Inr (Some (BoolShould [wrapQuery cfg (termQuery cfg v),
                                     wrapQuery cfg (missingQuery (fc_field cfg))]))) \<and>
         (fc_termQuery cfg \<and> \<not> fc_rangeQuery cfg \<and> v = JStr ''__not_empty__'' \<longrightarrow>
            fieldQuery inst cfg v ifs = Inr (Some (wrapQuery cfg (existsQuery (fc_field cfg))))) \<and>
         (fc_rangeQuery cfg \<and> rangeQueries (fc_field cfg) (asArray v) = Inr rs \<and>
            boolShouldQueries rs = Some q \<longrightarrow>
            fieldQuery inst cfg v ifs =
              Inr (Some (BoolShould [wrapQuery cfg q,
                                     wrapQuery cfg (missingQuery (fc_field cfg))]))) \<and>
         (\<not> fc_termQuery cfg \<and> \<not> fc_rangeQuery cfg \<longrightarrow>
            fieldQuery inst cfg v ifs = Inr (Some (wrapQuery cfg (humaneQuery inst cfg v ifs))))"
  using assms by (simp add: fieldQuery_def Let_def)

theorem include_missing_clause_witness:
  "fc_filter (fuelFilter\<lparr>fc_termQuery := True\<rparr>) \<and>
   fc_includeMissing (fuelFilter\<lparr>fc_termQuery := True\<rparr>) \<and>
   fieldQuery ''shop'' (fuelFilter\<lparr>fc_termQuery := True\<rparr>) (JStr ''diesel'') None =
     Inr (Some (BoolShould [Term ''fuel'' (JStr ''diesel''), Missing ''fuel''])) \<and>
   fieldQuery ''shop'' (fuelFilter\<lparr>fc_termQuery := True\<rparr>) (JStr ''__not_empty__'') None =
     Inr (Some (Exists ''fuel'')) \<and>
   fieldQuery ''shop'' (fuelFilter\<lparr>fc_rangeQuery := True\<rparr>)
       (JObj [(''from'', JNum 1), (''to'', JNum 5)]) None =
     Inr (Some (BoolShould [Range ''fuel'' (JNum 1) (JNum 5), Missing ''fuel''])) \<and>
   fieldQuery ''shop'' fuelFilter (JStr ''diesel'') None =
     Inr (Some (humaneQuery ''shop'' fuelFilter (JStr ''diesel'') None))"
proof -
  have f: "fc_filter (fuelFilter\<lparr>fc_termQuery := True\<rparr>)"
    and m: "fc_includeMissing (fuelFilter\<lparr>fc_termQuery := True\<rparr>)"
    and f': "fc_filter (fuelFilter\<lparr>fc_rangeQuery := True\<rparr>)"
    and m': "fc_includeMissing (fuelFilter\<lparr>fc_rangeQuery := True\<rparr>)"
    and f'': "fc_filter fuelFilter" and m'': "fc_includeMissing fuelFilter"
    by (simp_all add: fuelFilter_def)
  note term_thm = include_missing_clause[OF f m, THEN conjunct1, rule_format]
  note sentinel_thm = include_missing_clause[OF f m, THEN conjunct2, THEN conjunct1, rule_format]
  note range_thm = include_missing_clause[OF f' m', THEN conjunct2, THEN conjunct2, THEN conjunct1,
      rule_format]
  note free_thm = include_missing_clause[OF f'' m'', THEN conjunct2, THEN conjunct2, THEN conjunct2,
      rule_format]
  have a: "fieldQuery ''shop'' (fuelFilter\<lparr>fc_termQuery := True\<rparr>) (JStr ''diesel'') None =
     Inr (Some (BoolShould [Term ''fuel'' (JStr ''diesel''), Missing ''fuel'']))"
    by (subst term_thm)
      (simp_all add: fuelFilter_def plainField_def wrapQuery_def constantScoreQuery_def
        termQuery_def missingQuery_def)
  have b: "fieldQuery ''shop'' (fuelFilter\<lparr>fc_termQuery := True\<rparr>) (JStr ''__not_empty__'') None =
     Inr (Some (Exists ''fuel''))"
    by (subst sentinel_thm)
      (simp_all add: fuelFilter_def plainField_def wrapQuery_def constantScoreQuery_def
        existsQuery_def)
  have c: "fieldQuery ''shop'' (fuelFilter\<lparr>fc_rangeQuery := True\<rparr>)
       (JObj [(''from'', JNum 1), (''to'', JNum 5)]) None =
     Inr (Some (BoolShould [Range ''fuel'' (JNum 1) (JNum 5), Missing ''fuel'']))"
    by (subst range_thm[of _ "[Range ''fuel'' (JNum 1) (JNum 5)]" "Range ''fuel'' (JNum 1) (JNum 5)"])
      (simp_all add: fuelFilter_def plainField_def wrapQuery_def constantScoreQuery_def
        missingQuery_def asArray_def getProp_def)
  have d: "fieldQuery ''shop'' fuelFilter (JStr ''diesel'') None =
     Inr (Some (humaneQuery ''shop'' fuelFilter (JStr ''diesel'') None))"
    by (subst free_thm)
      (simp_all add: fuelFilter_def plainField_def wrapQuery_def constantScoreQuery_def
        humaneQuery_def)
  from f m a b c d show ?thesis by blast
qed

theorem include_missing_clause_counterexample:
  "fc_includeMissing fuelFilter \<and>
   fieldQuery ''shop'' fuelFilter (JStr ''diesel'') None =
     Inr (Some (humaneQuery ''shop'' fuelFilter (JStr ''diesel'') None)) \<and>
   specIncludeMissing fuelFilter (JStr ''diesel'')
       (humaneQuery ''shop'' fuelFilter (JStr ''diesel'') None) =
     BoolShould [humaneQuery ''shop'' fuelFilter (JStr ''diesel'') None, Missing ''fuel''] \<and>
   fieldQuery ''shop'' fuelFilter (JStr ''diesel'') None \<noteq>
     Inr (Some (specIncludeMissing fuelFilter (JStr ''diesel'')
       (humaneQuery ''shop'' fuelFilter (JStr ''diesel'') None)))"
  by (simp add: fieldQuery_def fuelFilter_def plainField_def wrapQuery_def
      constantScoreQuery_def humaneQuery_def specIncludeMissing_def missingQuery_def)

lemma unwrapped_wrapQuery: "unwrapped (wrapQuery cfg (HumaneQuery h)) = HumaneQuery h"
  by (simp add: wrapQuery_def constantScoreQuery_def Let_def split: option.splits)

text \<open>
  Claim C5. For a non-empty query text: when exactly one query field remains after
  the fields marked secondary-variant only are excluded, the compiled full-text
  clause is one weighted clause over that field (inside its nested-document and
  boost envelopes, if any), carrying the field's name and weight, and not a
  multi-field clause; when two or more remain, it is one multi-field clause whose
  field list names exactly the remaining fields, in order, each with its configured
  weight.
\<close>

theorem full_text_clause:
  assumes "text \<noteq> []"
  shows "(activeQueryFields stc = [qf] \<longrightarrow>
            (\<exists>h. buildTypeQuery inst stc (Some text) fuzzy ifs = Some (wrapQuery qf (HumaneQuery h)) \<and>
                 unwrapped (wrapQuery qf (HumaneQuery h)) = HumaneQuery h \<and>
                 hq_field h = fc_field qf \<and> hq_boost h = fc_weight qf \<and>
                 hq_query h = JStr text) \<and>
            (\<forall>m. buildTypeQuery inst stc (Some text) fuzzy ifs \<noteq> Some (MultiHumaneQuery m))) \<and>
         (2 \<le> length (activeQueryFields stc) \<longrightarrow>
            (\<exists>m. buildTypeQuery inst stc (Some text) fuzzy ifs = Some (MultiHumaneQuery m) \<and>
                 mq_query m = text \<and>
                 map (\<lambda>f. (mf_field f, mf_boost f)) (mq_fields m) =
                   map (\<lambda>q. (fc_field q, fc_weight q)) (activeQueryFields stc)))"
proof (intro conjI impI)
  assume one: "activeQueryFields stc = [qf]"
  let ?h = "\<lparr>hq_field = fc_field qf, hq_instance = inst, hq_intentFields = ifs,
             hq_query = JStr text, hq_boost = fc_weight qf,
             hq_vernacularOnly = fc_vernacularOnly qf, hq_keyword = fc_keyword qf,
             hq_noFuzzy = noFuzzyOf fuzzy qf\<rparr>"
  have b: "buildTypeQuery inst stc (Some text) fuzzy ifs = Some (wrapQuery qf (HumaneQuery ?h))"
    using assms one by (simp add: buildTypeQuery_def)
  then show "\<exists>h. buildTypeQuery inst stc (Some text) fuzzy ifs = Some (wrapQuery qf (HumaneQuery h)) \<and>
                 unwrapped (wrapQuery qf (HumaneQuery h)) = HumaneQuery h \<and>
                 hq_field h = fc_field qf \<and> hq_boost h = fc_weight qf \<and>
                 hq_query h = JStr text"
    by (intro exI[of _ ?h]) (simp add: unwrapped_wrapQuery)
  show "\<forall>m. buildTypeQuery inst stc (Some text) fuzzy ifs \<noteq> Some (MultiHumaneQuery m)"
    unfolding b by (simp add: wrapQuery_def constantScoreQuery_def Let_def split: option.splits)
next
  assume many: "2 \<le> length (activeQueryFields stc)"
  then obtain a b rest where "activeQueryFields stc = a # b # rest"
    by (cases "activeQueryFields stc"; cases "tl (activeQueryFields stc)") auto
  with assms show "\<exists>m. buildTypeQuery inst stc (Some text) fuzzy ifs = Some (MultiHumaneQuery m) \<and>
                 mq_query m = text \<and>
                 map (\<lambda>f. (mf_field f, mf_boost f)) (mq_fields m) =
                   map (\<lambda>q. (fc_field q, fc_weight q)) (activeQueryFields stc)"
    by (simp add: buildTypeQuery_def)
qed

lemma active_example_one:
  "activeQueryFields (typeOf [weighted ''name'' 3,
      (weighted ''alias'' 2)\<lparr>fc_vernacularOnly := Some True\<rparr>]) = [weighted ''name'' 3]"
  by (simp add: activeQueryFields_def typeOf_def weighted_def plainField_def)

lemma active_example_two:
  "activeQueryFields (typeOf [weighted ''name'' 3, weighted ''alias'' 2]) =
     [weighted ''name'' 3, weighted ''alias'' 2]"
  by (simp add: activeQueryFields_def typeOf_def weighted_def plainField_def)

theorem full_text_clause_witness:
  "''swift'' \<noteq> [] \<and>
   activeQueryFields (typeOf [weighted ''name'' 3,
      (weighted ''alias'' 2)\<lparr>fc_vernacularOnly := Some True\<rparr>]) = [weighted ''name'' 3] \<and>
   (\<forall>m. buildTypeQuery ''shop'' (typeOf [weighted ''name'' 3,
      (weighted ''alias'' 2)\<lparr>fc_vernacularOnly := Some True\<rparr>]) (Some ''swift'') True None
      \<noteq> Some (MultiHumaneQuery m)) \<and>
   2 \<le> length (activeQueryFields (typeOf [weighted ''name'' 3, weighted ''alias'' 2])) \<and>
   (\<exists>m. buildTypeQuery ''shop'' (typeOf [weighted ''name'' 3, weighted ''alias'' 2])
            (Some ''swift'') True None = Some (MultiHumaneQuery m) \<and>
        map (\<lambda>f. (mf_field f, mf_boost f)) (mq_fields m) =
          [(''name'', Some 3), (''alias'', Some 2)])"
proof -
  have t: "''swift'' \<noteq> []" by simp
  have two: "2 \<le> length (activeQueryFields (typeOf [weighted ''name'' 3, weighted ''alias'' 2]))"
    by (simp add: active_example_two)
  note single = full_text_clause[OF t, THEN conjunct1, rule_format, OF active_example_one,
      THEN conjunct2]
  note multi = full_text_clause[OF t, THEN conjunct2, rule_format, OF two]
  have m: "\<exists>m. buildTypeQuery ''shop'' (typeOf [weighted ''name'' 3, weighted ''alias'' 2])
            (Some ''swift'') True None = Some (MultiHumaneQuery m) \<and>
        map (\<lambda>f. (mf_field f, mf_boost f)) (mq_fields m) =
          [(''name'', Some 3), (''alias'', Some 2)]"
    using multi[of "''shop''" True None] unfolding active_example_two
    by (auto simp: weighted_def plainField_def)
  from t active_example_one single two m show ?thesis by blast
qed

lemma facet_typed_is_object:
  assumes "ownProp v ''type'' = JStr ''facet''"
  shows "\<exists>kvs. v = JObj kvs"
  using assms by (cases v) simp_all

lemma requested_valid_has_filter: "isValidValue (requested inp k) \<Longrightarrow> rq_filter inp \<noteq> None"
  by (cases "rq_filter inp") (simp_all add: requested_def isValidValue_def)

lemma requested_withFilter_same: "requested (withFilter inp key v) key = v"
  by (simp add: requested_def withFilter_def map_of_objSet)

lemma requested_withFilter_other:
  "k \<noteq> key \<Longrightarrow> requested (withFilter inp key v) k = requested inp k"
  by (cases "rq_filter inp") (simp_all add: requested_def withFilter_def map_of_objSet)

lemma filterCallback_value:
  "filterCallback inst inp ifs qs k cfg =
     (if fc_type cfg = Some ''post'' then Inr qs
      else
        (let filterValue =
               (if isValidValue (requested inp k) then requested inp k
                else if truthy (fc_defaultValue cfg) then fc_defaultValue cfg
                else JNull)
         in if isValidValue filterValue \<and> filterValue \<noteq> JStr ''__all__'' then
              (let filterType = (if isObject filterValue then ownProp filterValue ''type''
                                 else JNull);
                   unwrappedValue = (if isObject filterValue then unwrapValue filterValue
                                     else (filterValue, False));
                   range = snd unwrappedValue
               in if truthy filterType \<and> filterType = JStr ''facet'' then Inr qs
                  else
                    buildFieldQuery inst
                      (cfg\<lparr>fc_filter := True, fc_rangeQuery := range,
                            fc_termQuery := (\<not> range \<and> fc_termQuery cfg)\<rparr>)
                      (case fc_value cfg of
                         None \<Rightarrow> fst unwrappedValue
                       | Some f \<Rightarrow> f (fst unwrappedValue))
                      qs ifs)
            else Inr qs))"
proof (cases "isValidValue (requested inp k)")
  case True
  with requested_valid_has_filter[OF True] show ?thesis
    unfolding filterCallback_def by simp
next
  case False
  then show ?thesis unfolding filterCallback_def by simp
qed

lemma filterCallback_facet:
  assumes "ownProp (requested inp key) ''type'' = JStr ''facet''"
  shows "filterCallback inst inp ifs qs key cfg = Inr qs"
proof -
  from facet_typed_is_object[OF assms] obtain kvs where v: "requested inp key = JObj kvs"
    by blast
  with assms show ?thesis
    unfolding filterCallback_value by (simp add: isValidValue_def Let_def)
qed

lemma filterCallback_all:
  "filterCallback inst (withFilter inp key (JStr ''__all__'')) ifs qs key cfg = Inr qs"
  unfolding filterCallback_value by (simp add: requested_withFilter_same isValidValue_def Let_def)

lemma filterCallback_other:
  "k \<noteq> key \<Longrightarrow>
   filterCallback inst (withFilter inp key v) ifs qs k cfg = filterCallback inst inp ifs qs k cfg"
  unfolding filterCallback_value by (simp add: requested_withFilter_other)

lemma filterLoop_facet:
  assumes "ownProp (requested inp key) ''type'' = JStr ''facet''"
  shows "filterLoop inst (withFilter inp key (JStr ''__all__'')) ifs cfgs qs =
         filterLoop inst inp ifs cfgs qs"
proof (induction cfgs arbitrary: qs)
  case Nil
  then show ?case by simp
next
  case (Cons a cfgs)
  obtain k cfg where a: "a = (k, cfg)" by (cases a)
  show ?case
  proof (cases "k = key")
    case True
    with a Cons.IH filterCallback_facet[OF assms] filterCallback_all show ?thesis by simp
  next
    case False
    with a Cons.IH filterCallback_other show ?thesis by (simp split: sum.splits)
  qed
qed

lemma rq_lang_withFilter: "rq_lang (withFilter inp key v) = rq_lang inp"
  by (simp add: withFilter_def)

lemma filterQueries_facet:
  assumes "ownProp (requested inp key) ''type'' = JStr ''facet''"
  shows "filterQueries inst stc (withFilter inp key (JStr ''__all__'')) langs ifs =
         filterQueries inst stc inp langs ifs"
  unfolding filterQueries_def filterLoop_facet[OF assms] rq_lang_withFilter ..

lemma facetSelection_requested:
  "ownProp (requested (fuelRequest (facetSelection v)) ''fuel'') ''type'' = JStr ''facet''"
  by (simp add: requested_def fuelRequest_def facetSelection_def)

text \<open>
  Claim C4. When the request's filter value under a name is a wrapper of type
  \<open>facet\<close>, the loop of \<open>filterQueries\<close> adds no clause for a filter configuration of
  that name, and the compiled main-query filter clause is the one compiled for the
  same request with the "no constraint" sentinel \<open>__all__\<close> under that name: nothing
  in it derives from the value. In the query envelope the main-query filter is that
  clause, and the result of \<open>facetQueries\<close>, the only other reader of the value,
  is the post-filter.
\<close>

theorem facet_selection_only_in_post_filter:
  assumes "ownProp (requested inp key) ''type'' = JStr ''facet''"
  shows "filterCallback inst inp ifs qs key cfg = Inr qs \<and>
         filterQueries inst stc inp langs ifs =
           filterQueries inst stc (withFilter inp key (JStr ''__all__'')) langs ifs \<and>
         (\<forall>env. searchQuery inst stc inp ifs q langs = Inr env \<longrightarrow>
            filterQueries inst stc (withFilter inp key (JStr ''__all__'')) langs ifs =
              Inr (env_filter env) \<and>
            facetQueries inst stc inp ifs = Inr (env_post_filter env) \<and>
            env_must env = q)"
proof -
  have a: "filterCallback inst inp ifs qs key cfg = Inr qs"
    by (rule filterCallback_facet[OF assms])
  have b: "filterQueries inst stc inp langs ifs =
           filterQueries inst stc (withFilter inp key (JStr ''__all__'')) langs ifs"
    by (rule filterQueries_facet[OF assms, symmetric])
  have c: "\<forall>env. searchQuery inst stc inp ifs q langs = Inr env \<longrightarrow>
            filterQueries inst stc (withFilter inp key (JStr ''__all__'')) langs ifs =
              Inr (env_filter env) \<and>
            facetQueries inst stc inp ifs = Inr (env_post_filter env) \<and>
            env_must env = q"
    unfolding b[symmetric] by (auto simp: searchQuery_def split: sum.splits)
  from a b c show ?thesis by blast
qed

lemma searchQuery_example:
  "searchQuery ''shop'' fuelType (fuelRequest (facetSelection (JStr ''diesel''))) None None None =
     Inr \<lparr>env_index = ''car_store'', env_type = ''car'', env_from = 0, env_size = 10,
          env_must = None, env_filter = OneClause (Term ''city'' (JStr ''pune'')),
          env_post_filter = OneClause (Term ''fuel'' (JStr ''diesel''))\<rparr>"
  by (simp add: searchQuery_def filterQueries_def facetQueries_def filterConfigsOf_def
      facetConfigsOf_def fuelType_def fuelRequest_def facetSelection_def filterCallback_def
      facetCallback_def requested_def isValidValue_def unwrapValue_def buildFieldQuery_def
      fieldQuery_def plainField_def termQuery_def wrapQuery_def constantScoreQuery_def
      Let_def)

theorem facet_selection_only_in_post_filter_witness:
  "ownProp (requested (fuelRequest (facetSelection (JStr ''diesel''))) ''fuel'') ''type'' =
     JStr ''facet'' \<and>
   filterQueries ''shop'' fuelType
     (withFilter (fuelRequest (facetSelection (JStr ''diesel''))) ''fuel'' (JStr ''__all__''))
     None None = Inr (OneClause (Term ''city'' (JStr ''pune''))) \<and>
   facetQueries ''shop'' fuelType (fuelRequest (facetSelection (JStr ''diesel''))) None =
     Inr (OneClause (Term ''fuel'' (JStr ''diesel'')))"
proof -
  note h = facetSelection_requested[of "JStr ''diesel''"]
  note env = facet_selection_only_in_post_filter[OF h, THEN conjunct2, THEN conjunct2,
      rule_format, OF searchQuery_example]
  from h env show ?thesis by simp
qed

end
